theory Spec2Isabelle
  imports Main "HOL-Library.Sublist"
begin

section \<open>JavaScript strings, numbers and values\<close>

text \<open>
  The program is the TypeScript module \<^verbatim>\<open>server.ts\<close> of mcp-hemnet (the part of
  \<^verbatim>\<open>src/src/index.ts\<close> from the interface \<^verbatim>\<open>Listing\<close> on). A JavaScript string is a
  sequence of UTF-16 code units. The embedding uses \<^typ>\<open>string\<close>, whose characters are
  the code units \<open>0x00\<close> to \<open>0xFF\<close> (Latin-1): every string constant of the
  program lies in that range (the Swedish letters, \<open>0xB2\<close> for the superscript two of
  the area unit, \<open>0xA0\<close> for the non-breaking space), and on that range
  \<^verbatim>\<open>toLowerCase\<close>, \<^verbatim>\<open>trim\<close> and the regular-expression classes are the
  character-wise functions written out below. Strings with code units above
  \<open>0xFF\<close> are outside the embedding.

  A JavaScript number is modelled by \<^typ>\<open>int\<close>: the embedding covers the integral
  numbers whose \<^verbatim>\<open>String\<close> conversion is the plain decimal numeral. The only falsy
  number there is \<open>0\<close>.
\<close>

type_synonym number = int

definition a_uml :: char where "a_uml = CHR 0xE4"
definition a_ring :: char where "a_ring = CHR 0xE5"
definition o_uml :: char where "o_uml = CHR 0xF6"
definition sup_two :: char where "sup_two = CHR 0xB2"

text \<open>\<^verbatim>\<open>toLowerCase\<close> maps the code units \<open>A\<close> to \<open>Z\<close> and \<open>0xC0\<close> to \<open>0xDE\<close>, except the
  multiplication sign \<open>0xD7\<close>, to the code unit \<open>0x20\<close> above, and leaves the others
  below \<open>0x100\<close> as they are.\<close>

definition lower_char :: "char \<Rightarrow> char" where
  "lower_char c =
     (let n = (of_char c :: nat)
      in if (65 \<le> n \<and> n \<le> 90) \<or> (192 \<le> n \<and> n \<le> 222 \<and> n \<noteq> 215)
         then char_of (n + 32) else c)"

definition toLowerCase :: "string \<Rightarrow> string" where
  "toLowerCase s = map lower_char s"

text \<open>White space and line terminators of ECMAScript below \<open>0x100\<close>: TAB, LF, VT, FF,
  CR, SP and NBSP. This is also the class \<^verbatim>\<open>\s\<close> of a regular expression.\<close>

definition is_space :: "char \<Rightarrow> bool" where
  "is_space c = (c \<in> set [CHR 0x09, CHR 0x0A, CHR 0x0B, CHR 0x0C, CHR 0x0D, CHR 0x20, CHR 0xA0])"

definition is_digit :: "char \<Rightarrow> bool" where
  "is_digit c = (c \<in> set ''0123456789'')"

definition trim :: "string \<Rightarrow> string" where
  "trim s = rev (dropWhile is_space (rev (dropWhile is_space s)))"

fun str_includes :: "string \<Rightarrow> string \<Rightarrow> bool" where
  "str_includes [] sub = (sub = [])"
| "str_includes (c # cs) sub = (prefix sub (c # cs) \<or> str_includes cs sub)"

definition startsWith :: "string \<Rightarrow> string \<Rightarrow> bool" where
  "startsWith s p = prefix p s"

definition digit_chars :: string where
  "digit_chars = ''0123456789''"

fun nat_digits :: "nat \<Rightarrow> string" where
  "nat_digits n =
     (if n < 10 then [digit_chars ! n] else nat_digits (n div 10) @ [digit_chars ! (n mod 10)])"

declare nat_digits.simps [simp del]

definition String_num :: "number \<Rightarrow> string" where
  "String_num n = (if n < 0 then CHR ''-'' # nat_digits (nat (- n)) else nat_digits (nat n))"

text \<open>
  A property read on an object literal is looked up on the object itself and then on
  \<^verbatim>\<open>Object.prototype\<close>. The tables of the program are object literals indexed with
  caller-supplied strings, so a read can yield an inherited built-in instead of a string.
  \<open>Builtin name\<close> stands for the value found under \<open>name\<close> on
  \<^verbatim>\<open>Object.prototype\<close>: a function, or for \<^verbatim>\<open>__proto__\<close> the prototype object. All
  of them are truthy.
\<close>

datatype jsvalue = Str string | Builtin string

definition Object_prototype :: "string list" where
  "Object_prototype =
     [''constructor'', ''__defineGetter__'', ''__defineSetter__'', ''hasOwnProperty'',
      ''__lookupGetter__'', ''__lookupSetter__'', ''isPrototypeOf'', ''propertyIsEnumerable'',
      ''toString'', ''valueOf'', ''__proto__'', ''toLocaleString'']"

definition get_prop :: "(string \<times> string) list \<Rightarrow> string \<Rightarrow> jsvalue option" where
  "get_prop obj key =
     (case map_of obj key of
        Some v \<Rightarrow> Some (Str v)
      | None \<Rightarrow> if key \<in> set Object_prototype then Some (Builtin key) else None)"

fun truthy :: "jsvalue option \<Rightarrow> bool" where
  "truthy None = False"
| "truthy (Some (Str s)) = (s \<noteq> [])"
| "truthy (Some (Builtin _)) = True"

text \<open>The string conversion applied by \<^verbatim>\<open>URLSearchParams.append\<close> to its value.\<close>

fun ToString :: "jsvalue \<Rightarrow> string" where
  "ToString (Str s) = s"
| "ToString (Builtin name) =
     (if name = ''__proto__'' then ''[object Object]''
      else if name = ''constructor'' then ''function Object() { [native code] }''
      else ''function '' @ name @ ''() { [native code] }'')"

text \<open>\<^verbatim>\<open>a || b\<close> on a looked-up value and a string default.\<close>

definition or_else :: "jsvalue option \<Rightarrow> string \<Rightarrow> jsvalue" where
  "or_else v d = (if truthy v then the v else Str d)"

definition truthy_str :: "string option \<Rightarrow> bool" where
  "truthy_str s = (case s of None \<Rightarrow> False | Some t \<Rightarrow> t \<noteq> [])"

definition truthy_num :: "number option \<Rightarrow> bool" where
  "truthy_num n = (case n of None \<Rightarrow> False | Some k \<Rightarrow> k \<noteq> 0)"

definition truthy_bool :: "bool option \<Rightarrow> bool" where
  "truthy_bool b = (case b of None \<Rightarrow> False | Some t \<Rightarrow> t)"

section \<open>Constants\<close>

definition COMMON_LOCATIONS :: "(string \<times> string) list" where
  "COMMON_LOCATIONS =
    [(''botkyrka'', ''17885''),
     (''danderyd'', ''17892''),
     (''eker'' @ [o_uml], ''17896''),
     (''g'' @ [o_uml] @ ''teborg'', ''17920''),
     (''haninge'', ''17928''),
     (''helsingborg'', ''17932''),
     (''huddinge'', ''17936''),
     (''j'' @ [a_uml] @ ''rf'' @ [a_uml] @ ''lla'', ''17951''),
     (''j'' @ [o_uml] @ ''nk'' @ [o_uml] @ ''ping'', ''17748''),
     (''liding'' @ [o_uml], ''17846''),
     (''link'' @ [o_uml] @ ''ping'', ''17847''),
     (''lund'', ''17987''),
     (''malm'' @ [o_uml], ''17989''),
     (''nacka'', ''17853''),
     (''norrk'' @ [o_uml] @ ''ping'', ''18002''),
     (''norrt'' @ [a_uml] @ ''lje'', ''18003''),
     (''salem'', ''18019''),
     (''sigtuna'', ''18020''),
     (''sollentuna'', ''18027''),
     (''solna'', ''18028''),
     (''stockholm'', ''17744''),
     (''sundbyberg'', ''18042''),
     (''s'' @ [o_uml] @ ''dert'' @ [a_uml] @ ''lje'', ''17775''),
     (''tyres'' @ [o_uml], ''17792''),
     (''t'' @ [a_uml] @ ''by'', ''17793''),
     (''upplands v'' @ [a_uml] @ ''sby'', ''17798''),
     (''upplands-v'' @ [a_uml] @ ''sby'', ''17798''),
     (''uppsala'', ''17745''),
     (''vallentuna'', ''17804''),
     (''v'' @ [a_uml] @ ''rmd'' @ [o_uml], ''17818''),
     (''v'' @ [a_uml] @ ''ster'' @ [a_ring] @ ''s'', ''17821''),
     ([o_uml] @ ''rebro'', ''17757''),
     ([o_uml] @ ''ster'' @ [a_ring] @ ''ker'', ''17769'')]"

definition PROPERTY_TYPES :: "(string \<times> string) list" where
  "PROPERTY_TYPES =
    [(''villa'', ''villa''),
     (''house'', ''villa''),
     (''apartment'', ''bostadsratt''),
     (''l'' @ [a_uml] @ ''genhet'', ''bostadsratt''),
     (''bostadsr'' @ [a_uml] @ ''tt'', ''bostadsratt''),
     (''townhouse'', ''radhus''),
     (''radhus'', ''radhus''),
     (''holiday'', ''fritidsboende''),
     (''fritidshus'', ''fritidsboende''),
     (''plot'', ''tomt''),
     (''tomt'', ''tomt''),
     (''farm'', ''gard''),
     (''g'' @ [a_ring] @ ''rd'', ''gard'')]"

definition SORT_ORDERS :: "(string \<times> string) list" where
  "SORT_ORDERS =
    [(''newest'', ''newest''),
     (''oldest'', ''oldest''),
     (''cheapest'', ''price_asc''),
     (''expensive'', ''price_desc''),
     (''largest'', ''size_desc''),
     (''smallest'', ''size_asc''),
     (''lowest_fee'', ''fee_asc''),
     (''highest_fee'', ''fee_desc'')]"

section \<open>URL builders\<close>

text \<open>
  \<^verbatim>\<open>URLSearchParams\<close> is an ordered list of name-value pairs; \<^verbatim>\<open>append\<close> adds a pair
  at the end, and \<^verbatim>\<open>toString\<close> is the \<^verbatim>\<open>application/x-www-form-urlencoded\<close>
  serializer of the URL standard: the UTF-8 bytes of names and values, with ASCII
  alphanumerics and \<^verbatim>\<open>*-._\<close> kept, a space written as \<^verbatim>\<open>+\<close>, and every other byte
  percent-encoded.
\<close>

type_synonym URLSearchParams = "(string \<times> string) list"

definition append :: "URLSearchParams \<Rightarrow> string \<Rightarrow> string \<Rightarrow> URLSearchParams" where
  "append params name v = params @ [(name, v)]"

definition utf8 :: "char \<Rightarrow> nat list" where
  "utf8 c = (let n = of_char c in if n < 128 then [n] else [192 + n div 64, 128 + n mod 64])"

definition hex_chars :: string where
  "hex_chars = ''0123456789ABCDEF''"

definition percent :: "nat \<Rightarrow> string" where
  "percent b = [CHR ''%'', hex_chars ! (b div 16), hex_chars ! (b mod 16)]"

definition alnum_chars :: string where
  "alnum_chars = ''ABCDEFGHIJKLMNOPQRSTUVWXYZabcdefghijklmnopqrstuvwxyz0123456789''"

definition form_encode_char :: "char \<Rightarrow> string" where
  "form_encode_char c =
     (if c = CHR '' '' then ''+''
      else if c \<in> set alnum_chars \<or> c \<in> set ''*-._'' then [c]
      else concat (map percent (utf8 c)))"

definition form_encode :: "string \<Rightarrow> string" where
  "form_encode s = concat (map form_encode_char s)"

fun join :: "string \<Rightarrow> string list \<Rightarrow> string" where
  "join sep [] = []"
| "join sep [x] = x"
| "join sep (x # y # ys) = x @ sep @ join sep (y # ys)"

definition toString :: "URLSearchParams \<Rightarrow> string" where
  "toString params = join ''&'' (map (\<lambda>(n, v). form_encode n @ ''='' @ form_encode v) params)"

datatype new_construction = NC_show | NC_only | NC_hide

datatype open_house = OH_today | OH_tomorrow | OH_weekend

record SearchOptions =
  locationId :: "jsvalue option"
  minRooms :: "number option"
  maxRooms :: "number option"
  minPrice :: "number option"
  maxPrice :: "number option"
  minArea :: "number option"
  maxArea :: "number option"
  maxFee :: "number option"
  propertyTypes :: "string list option"
  newConstruction :: "new_construction option"
  keywords' :: "string option"
  openHouse :: "open_house option"
  hasBalcony :: "bool option"
  hasElevator :: "bool option"
  daysListed :: "number option"
  sortOrder :: "string option"

fun ncMap :: "new_construction \<Rightarrow> string" where
  "ncMap NC_show = ''1''"
| "ncMap NC_only = ''2''"
| "ncMap NC_hide = ''0''"

fun open_house_str :: "open_house \<Rightarrow> string" where
  "open_house_str OH_today = ''today''"
| "open_house_str OH_tomorrow = ''tomorrow''"
| "open_house_str OH_weekend = ''weekend''"

definition daysMap :: "(string \<times> string) list" where
  "daysMap = [(''1'', ''1d''), (''3'', ''3d''), (''7'', ''1w''), (''14'', ''2w''), (''30'', ''1m'')]"

text \<open>\<^verbatim>\<open>if (cond) params.append(name, value)\<close>.\<close>

definition append_if :: "bool \<Rightarrow> string \<Rightarrow> string \<Rightarrow> URLSearchParams \<Rightarrow> URLSearchParams" where
  "append_if cond name v params = (if cond then append params name v else params)"

text \<open>The loop over \<^verbatim>\<open>options.propertyTypes\<close>.\<close>

definition append_types :: "string list option \<Rightarrow> URLSearchParams \<Rightarrow> URLSearchParams" where
  "append_types types params =
     (case types of
        None \<Rightarrow> params
      | Some ts \<Rightarrow>
          if length ts > 0
          then fold (\<lambda>type ps.
                 let mapped = or_else (get_prop PROPERTY_TYPES (toLowerCase type)) type
                 in append ps ''item_types[]'' (ToString mapped)) ts params
          else params)"

text \<open>\<open>buildSearchUrl\<close>: \<open>searchParams\<close> is the object \<^verbatim>\<open>params\<close> when the function
  returns. The field \<open>keywords'\<close> is the field \<^verbatim>\<open>keywords\<close> of the source.\<close>

definition searchParams :: "SearchOptions \<Rightarrow> URLSearchParams" where
  "searchParams options =
    (let params = [];
         params = append_if (truthy (locationId options))
                    ''location_ids[]'' (ToString (the (locationId options))) params;
         params = append_if (truthy_num (minRooms options))
                    ''rooms_min'' (String_num (the (minRooms options))) params;
         params = append_if (truthy_num (maxRooms options))
                    ''rooms_max'' (String_num (the (maxRooms options))) params;
         params = append_if (truthy_num (minPrice options))
                    ''price_min'' (String_num (the (minPrice options))) params;
         params = append_if (truthy_num (maxPrice options))
                    ''price_max'' (String_num (the (maxPrice options))) params;
         params = append_if (truthy_num (minArea options))
                    ''living_area_min'' (String_num (the (minArea options))) params;
         params = append_if (truthy_num (maxArea options))
                    ''living_area_max'' (String_num (the (maxArea options))) params;
         params = append_if (truthy_num (maxFee options))
                    ''fee_max'' (String_num (the (maxFee options))) params;
         params = append_types (propertyTypes options) params;
         params = append_if (newConstruction options \<noteq> None)
                    ''new_construction'' (ncMap (the (newConstruction options))) params;
         params = append_if (truthy_str (keywords' options))
                    ''keywords'' (the (keywords' options)) params;
         params = append_if (openHouse options \<noteq> None)
                    ''upcoming_open_house'' (open_house_str (the (openHouse options))) params;
         params = append_if (truthy_bool (hasBalcony options)) ''balcony'' ''1'' params;
         params = append_if (truthy_bool (hasElevator options)) ''elevator'' ''1'' params;
         params = append_if (truthy_num (daysListed options))
                    ''published''
                    (ToString (or_else (get_prop daysMap (String_num (the (daysListed options))))
                                 (String_num (the (daysListed options))))) params;
         params = append_if (truthy_str (sortOrder options))
                    ''order''
                    (ToString (or_else (get_prop SORT_ORDERS (toLowerCase (the (sortOrder options))))
                                 (the (sortOrder options)))) params
     in params)"

definition buildSearchUrl :: "SearchOptions \<Rightarrow> string" where
  "buildSearchUrl options = ''https://www.hemnet.se/bostader?'' @ toString (searchParams options)"

section \<open>Regular expressions\<close>

text \<open>
  The regular expressions of the program are sequences of literals, single characters of
  a class, greedy and lazy repetitions of a class, and one negative lookahead. \<open>match_here\<close>
  is the backtracking matcher of ECMAScript on such sequences: it returns the length of
  the first match found in priority order at the start of the string, and the offsets at
  which the \<open>Mark\<close>s (the parentheses of a capture group) were passed. \<open>search\<close> is
  \<^verbatim>\<open>String.prototype.match\<close> without the \<^verbatim>\<open>g\<close> flag: the match at the leftmost start.
\<close>

datatype rx =
    Lit string
  | LitI string
  | One "char \<Rightarrow> bool"
  | Star "char \<Rightarrow> bool"
  | Lazy "char \<Rightarrow> bool"
  | NotAhead string
  | Mark
  | Eos

fun shift :: "nat \<Rightarrow> (nat \<times> nat list) option \<Rightarrow> (nat \<times> nat list) option" where
  "shift k None = None"
| "shift k (Some (n, ms)) = Some (n + k, map (\<lambda>m. m + k) ms)"

function match_here :: "rx list \<Rightarrow> string \<Rightarrow> (nat \<times> nat list) option" where
  "match_here [] s = Some (0, [])"
| "match_here (Lit l # r) s =
     (if prefix l s then shift (length l) (match_here r (drop (length l) s)) else None)"
| "match_here (LitI l # r) s =
     (if length l \<le> length s \<and> toLowerCase (take (length l) s) = toLowerCase l
      then shift (length l) (match_here r (drop (length l) s)) else None)"
| "match_here (One c # r) [] = None"
| "match_here (One c # r) (x # xs) = (if c x then shift 1 (match_here r xs) else None)"
| "match_here (Star c # r) [] = match_here r []"
| "match_here (Star c # r) (x # xs) =
     (if c x
      then (case shift 1 (match_here (Star c # r) xs) of
              Some m \<Rightarrow> Some m
            | None \<Rightarrow> match_here r (x # xs))
      else match_here r (x # xs))"
| "match_here (Lazy c # r) [] = match_here r []"
| "match_here (Lazy c # r) (x # xs) =
     (case match_here r (x # xs) of
        Some m \<Rightarrow> Some m
      | None \<Rightarrow> if c x then shift 1 (match_here (Lazy c # r) xs) else None)"
| "match_here (NotAhead l # r) s = (if prefix l s then None else match_here r s)"
| "match_here (Mark # r) s =
     (case match_here r s of None \<Rightarrow> None | Some (n, ms) \<Rightarrow> Some (n, 0 # ms))"
| "match_here (Eos # r) s = (if s = [] then match_here r s else None)"
  by pat_completeness auto
termination
  by (relation "measures [\<lambda>(r, s). length r, \<lambda>(r, s). length s]") auto

text \<open>A match: the index where it starts, its length, and the marks from its start.\<close>

type_synonym rmatch = "nat \<times> nat \<times> nat list"

fun search :: "rx list \<Rightarrow> string \<Rightarrow> rmatch option" where
  "search re [] = (case match_here re [] of None \<Rightarrow> None | Some (n, ms) \<Rightarrow> Some (0, n, ms))"
| "search re (x # xs) =
     (case match_here re (x # xs) of
        Some (n, ms) \<Rightarrow> Some (0, n, ms)
      | None \<Rightarrow> (case search re xs of None \<Rightarrow> None | Some (i, n, ms) \<Rightarrow> Some (Suc i, n, ms)))"

declare match_here.simps [simp del] search.simps [simp del]

text \<open>\<^verbatim>\<open>m[0]\<close>, \<^verbatim>\<open>m[1]\<close> and \<^verbatim>\<open>m[2]\<close> of a match \<open>m\<close> in the string \<open>s\<close>.\<close>

fun group0 :: "string \<Rightarrow> rmatch \<Rightarrow> string" where
  "group0 s (i, n, ms) = take n (drop i s)"

fun group1 :: "string \<Rightarrow> rmatch \<Rightarrow> string" where
  "group1 s (i, n, a # b # ms) = take (b - a) (drop (i + a) s)"
| "group1 s (i, n, ms) = []"

fun group2 :: "string \<Rightarrow> rmatch \<Rightarrow> string" where
  "group2 s (i, n, a # b # c # d # ms) = take (d - c) (drop (i + c) s)"
| "group2 s (i, n, ms) = []"

section \<open>HTTP helpers\<close>

text \<open>
  The network and the module-level configuration are the environment of every operation.
  \<open>fetch\<close> answers a request with a response, or with \<open>None\<close> when the promise of
  \<^verbatim>\<open>fetch\<close> rejects. \<^verbatim>\<open>JSON.parse\<close> and \<^verbatim>\<open>cheerio.load\<close> are library functions taken
  as parameters; parsed JSON is modelled at the type the program casts it to, an array of
  hits, where an element may also be \<^verbatim>\<open>null\<close> (the \<open>None\<close> of the list). Every
  operation returns the list of requests it issued, in order, beside its result, and an
  exception is the \<open>Inl\<close> of the result.
\<close>

datatype body = NoBody | RenderBody string number

record request =
  req_url :: string
  req_method :: string
  req_headers :: "(string \<times> string) list"
  req_body :: body

record response =
  ok :: bool
  status :: nat
  response_text :: string

record render_data =
  data_html :: "string option"
  data_error :: "string option"

datatype hit = Hit (hit_id: number) (hit_name: string) (location_type: "string option")

datatype json = NotArray | Array "hit option list"

datatype node =
    Text string
  | Comment string
  | Element (tag: string) (attrs: "(string \<times> string) list") (children: "node list")

record env =
  browserRenderUrl :: "string option"
  browserRenderApiKey :: "string option"
  fetch :: "request \<Rightarrow> response option"
  parse_render_data :: "string \<Rightarrow> render_data option"
  JSON_parse :: "string \<Rightarrow> json option"
  cheerio_load :: "string \<Rightarrow> node list"

datatype error =
    NotConfigured
  | FetchFailed
  | RenderFailed nat string
  | InvalidJson
  | RenderError string
  | EmptyHtml
  | BotVerification
  | NoJson string
  | LocationNotFound string
  | InvalidListingUrl
  | ListingRemoved

type_synonym 'a io = "request list \<times> (error + 'a)"

definition USER_AGENT :: string where
  "USER_AGENT =
     ''Mozilla/5.0 (X11; Linux x86_64) AppleWebKit/537.36 (KHTML, like Gecko) Chrome/131.0.0.0 Safari/537.36''"

definition fetchViaRenderer :: "env \<Rightarrow> string \<Rightarrow> string io" where
  "fetchViaRenderer e url =
     (if \<not> truthy_str (browserRenderUrl e) then ([], Inl NotConfigured)
      else
        let headers = [(''Content-Type'', ''application/json'')];
            headers = (if truthy_str (browserRenderApiKey e)
                       then headers @ [(''Authorization'', ''Bearer '' @ the (browserRenderApiKey e))]
                       else headers);
            req = \<lparr>req_url = the (browserRenderUrl e), req_method = ''POST'',
                   req_headers = headers, req_body = RenderBody url 10000\<rparr>
        in case fetch e req of
             None \<Rightarrow> ([req], Inl FetchFailed)
           | Some response \<Rightarrow>
               if \<not> ok response
               then ([req], Inl (RenderFailed (status response) (response_text response)))
               else (case parse_render_data e (response_text response) of
                       None \<Rightarrow> ([req], Inl InvalidJson)
                     | Some data \<Rightarrow>
                         if truthy_str (data_error data) then ([req], Inl (RenderError (the (data_error data))))
                         else if \<not> truthy_str (data_html data) then ([req], Inl EmptyHtml)
                         else ([req], Inr (the (data_html data)))))"

definition fetchPage :: "env \<Rightarrow> string \<Rightarrow> string io" where
  "fetchPage e url =
     (case fetchViaRenderer e url of
        (reqs, Inl err) \<Rightarrow> (reqs, Inl err)
      | (reqs, Inr html) \<Rightarrow>
          if str_includes html ''Verify you are human''
          then (reqs, Inl BotVerification)
          else (reqs, Inr html))"

text \<open>\<^verbatim>\<open>/<pre[^>]*>([\s\S]*?)<\/pre>/i\<close>\<close>

definition pre_regex :: "rx list" where
  "pre_regex = [LitI ''<pre'', Star (\<lambda>c. c \<noteq> CHR ''>''), Lit ''>'',
                Mark, Lazy (\<lambda>c. True), Mark, LitI ''</pre>'']"

definition direct_request :: "string \<Rightarrow> request" where
  "direct_request url =
     \<lparr>req_url = url, req_method = ''GET'',
      req_headers = [(''User-Agent'', USER_AGENT), (''Accept'', ''application/json''),
                     (''Accept-Language'', ''sv-SE,sv;q=0.9,en-US;q=0.8,en;q=0.7'')],
      req_body = NoBody\<rparr>"

text \<open>The fallback of \<open>fetchJson\<close>: through the renderer, JSON from the \<^verbatim>\<open>pre\<close> block.\<close>

definition fetchJson_fallback :: "env \<Rightarrow> string \<Rightarrow> json io" where
  "fetchJson_fallback e url =
     (case fetchViaRenderer e url of
        (reqs, Inl err) \<Rightarrow> (reqs, Inl err)
      | (reqs, Inr html) \<Rightarrow>
          (case search pre_regex html of
             None \<Rightarrow> (reqs, Inl (NoJson url))
           | Some preMatch \<Rightarrow>
               (case JSON_parse e (trim (group1 html preMatch)) of
                  None \<Rightarrow> (reqs, Inl (NoJson url))
                | Some v \<Rightarrow> (reqs, Inr v))))"

text \<open>
  \<open>fetchJson\<close> returns the promise of \<^verbatim>\<open>response.json()\<close> without awaiting it, so a
  body that is not JSON rejects the result and the \<^verbatim>\<open>catch\<close> does not see it: there is
  no fallback then.
\<close>

definition fetchJson :: "env \<Rightarrow> string \<Rightarrow> json io" where
  "fetchJson e url =
     (let req = direct_request url;
          fallback = (case fetchJson_fallback e url of (reqs, r) \<Rightarrow> (req # reqs, r))
      in case fetch e req of
           None \<Rightarrow> fallback
         | Some response \<Rightarrow>
             if ok response
             then (case JSON_parse e (response_text response) of
                     None \<Rightarrow> ([req], Inl InvalidJson)
                   | Some v \<Rightarrow> ([req], Inr v))
             else fallback)"

section \<open>Location lookup\<close>

record LocationResult =
  loc_id :: jsvalue
  loc_name :: string
  loc_type :: string

text \<open>\<^verbatim>\<open>encodeURIComponent\<close>: the UTF-8 bytes, percent-encoded except the unreserved
  characters. The strings of the embedding have no surrogate code units, so the function
  is total here; in the source it throws on a string with a lone surrogate.\<close>

definition encodeURIComponent :: "string \<Rightarrow> string" where
  "encodeURIComponent s =
     concat (map (\<lambda>c. if c \<in> set alnum_chars \<or> c \<in> set ''-_.!~*()'' \<or> c = CHR 0x27
                       then [c] else concat (map percent (utf8 c))) s)"

definition autocomplete_url :: "string \<Rightarrow> string" where
  "autocomplete_url location =
     ''https://www.hemnet.se/locations/show?q='' @ encodeURIComponent location @ ''&h=1''"

text \<open>\<open>findLocationId\<close>. Its \<^verbatim>\<open>try\<close> block catches every exception and the function
  then returns null: the exceptions of \<open>fetchJson\<close>, and the \<^verbatim>\<open>TypeError\<close> of the read
  \<^verbatim>\<open>first.id\<close> when the first element of the array is \<^verbatim>\<open>null\<close>.\<close>

definition findLocationId :: "env \<Rightarrow> string \<Rightarrow> request list \<times> LocationResult option" where
  "findLocationId e location =
     (let normalized = trim (toLowerCase location)
      in if truthy (get_prop COMMON_LOCATIONS normalized)
         then ([], Some \<lparr>loc_id = the (get_prop COMMON_LOCATIONS normalized),
                          loc_name = location, loc_type = ''kommun''\<rparr>)
         else (case fetchJson e (autocomplete_url location) of
                 (reqs, Inr (Array (None # rest))) \<Rightarrow> (reqs, None)
               | (reqs, Inr (Array (Some first # rest))) \<Rightarrow>
                   (reqs, Some \<lparr>loc_id = Str (String_num (hit_id first)),
                                 loc_name = (if hit_name first \<noteq> [] then hit_name first else location),
                                 loc_type = (if truthy_str (location_type first)
                                             then the (location_type first) else ''unknown'')\<rparr>)
               | (reqs, _) \<Rightarrow> (reqs, None)))"

section \<open>Documents\<close>

text \<open>
  A parsed document, as \<^verbatim>\<open>cheerio\<close> holds it: a forest of text, comment and element
  nodes, with lower-case tag and attribute names. The functions below are the
  \<^verbatim>\<open>cheerio\<close> calls the scrapers make. \<open>elems\<close> lists the elements of a forest in
  document order, each with the siblings that follow it.
\<close>

fun textContent :: "node \<Rightarrow> string" where
  "textContent (Text s) = s"
| "textContent (Comment s) = []"
| "textContent (Element t a cs) = concat (map textContent cs)"

text \<open>\<^verbatim>\<open>.text()\<close> of a selection.\<close>

definition sel_text :: "node list \<Rightarrow> string" where
  "sel_text sel = concat (map textContent sel)"

fun elems :: "node list \<Rightarrow> (node \<times> node list) list" where
  "elems [] = []"
| "elems (Text s # rest) = elems rest"
| "elems (Comment s # rest) = elems rest"
| "elems (Element t a cs # rest) = (Element t a cs, rest) # elems cs @ elems rest"

text \<open>\<^verbatim>\<open>$("*")\<close>, \<^verbatim>\<open>$(tag)\<close>, \<^verbatim>\<open>$el.find("*")\<close> and \<^verbatim>\<open>$el.find(tag)\<close>.\<close>

definition select_all :: "node list \<Rightarrow> node list" where
  "select_all doc = map fst (elems doc)"

definition is_tag :: "string \<Rightarrow> node \<Rightarrow> bool" where
  "is_tag t n = (case n of Element t' a cs \<Rightarrow> t' = t | _ \<Rightarrow> False)"

definition select :: "node list \<Rightarrow> string \<Rightarrow> node list" where
  "select doc t = filter (is_tag t) (select_all doc)"

definition find_all :: "node \<Rightarrow> node list" where
  "find_all el = (case el of Element t a cs \<Rightarrow> select_all cs | _ \<Rightarrow> [])"

definition find_tag :: "node \<Rightarrow> string \<Rightarrow> node list" where
  "find_tag el t = filter (is_tag t) (find_all el)"

text \<open>\<^verbatim>\<open>.first()\<close>, \<^verbatim>\<open>.attr(name)\<close>, and the attribute selector \<^verbatim>\<open>[name*="sub"]\<close>.\<close>

definition first :: "node list \<Rightarrow> node list" where
  "first sel = take 1 sel"

definition attr :: "node \<Rightarrow> string \<Rightarrow> string option" where
  "attr el name = (case el of Element t a cs \<Rightarrow> map_of a name | _ \<Rightarrow> None)"

definition attr_contains :: "string \<Rightarrow> string \<Rightarrow> node \<Rightarrow> bool" where
  "attr_contains name sub el =
     (case attr el name of None \<Rightarrow> False | Some v \<Rightarrow> str_includes v sub)"

text \<open>\<^verbatim>\<open>$(node).contents().filter(function() { return this.type === "text"; }).text()\<close>:
  the text nodes among the children of the node, concatenated.\<close>

definition own_text :: "node \<Rightarrow> string" where
  "own_text n =
     (case n of
        Element t a cs \<Rightarrow> concat (map (\<lambda>c. case c of Text s \<Rightarrow> s | _ \<Rightarrow> []) cs)
      | _ \<Rightarrow> [])"

text \<open>\<^verbatim>\<open>.next(tag)\<close>: the next sibling that is an element, if it has that tag.\<close>

fun next_element :: "node list \<Rightarrow> node list" where
  "next_element [] = []"
| "next_element (Element t a cs # rest) = [Element t a cs]"
| "next_element (n # rest) = next_element rest"

definition next_tag :: "node list \<Rightarrow> string \<Rightarrow> node list" where
  "next_tag following t = filter (is_tag t) (next_element following)"

section \<open>Scrapers\<close>

record Listing =
  title :: string
  url :: string
  price :: string
  rooms :: string
  area :: string
  monthlyFee :: string
  description :: string
  location :: string
  imageUrl :: string

text \<open>\<^verbatim>\<open>/(\d[\d\s]*\d)\s*kr(?!\/)/\<close>, \<^verbatim>\<open>/(\d+)\s*rum/\<close>, \<^verbatim>\<open>/(\d+)\s*m\<close>\<open>\<^sup>2\<close>\<^verbatim>\<open>/\<close> and
  \<^verbatim>\<open>/(\d[\d\s]*)\s*kr\/m\<close>\<open>\<aa>\<close>\<^verbatim>\<open>n/\<close>.\<close>

definition price_regex :: "rx list" where
  "price_regex = [One is_digit, Star (\<lambda>c. is_digit c \<or> is_space c), One is_digit,
                  Star is_space, Lit ''kr'', NotAhead ''/'']"

definition rooms_regex :: "rx list" where
  "rooms_regex = [One is_digit, Star is_digit, Star is_space, Lit ''rum'']"

definition area_regex :: "rx list" where
  "area_regex = [One is_digit, Star is_digit, Star is_space, Lit (''m'' @ [sup_two])]"

definition fee_regex :: "rx list" where
  "fee_regex = [One is_digit, Star (\<lambda>c. is_digit c \<or> is_space c),
                Star is_space, Lit (''kr/m'' @ [a_ring] @ ''n'')]"

text \<open>The loop over \<^verbatim>\<open>$el.find("*")\<close> that looks for the fee: it stops at the first
  node whose own text matches and yields \<^verbatim>\<open>feeMatch[0]\<close>.\<close>

fun fee_each :: "node list \<Rightarrow> string option" where
  "fee_each [] = None"
| "fee_each (node # nodes) =
     (let nodeText = own_text node
      in case search fee_regex nodeText of
           Some m \<Rightarrow> Some (group0 nodeText m)
         | None \<Rightarrow> fee_each nodes)"

text \<open>The loop over \<^verbatim>\<open>$el.find("img")\<close> that looks for the thumbnail.\<close>

fun image_each :: "node list \<Rightarrow> string" where
  "image_each [] = []"
| "image_each (imgNode # imgs) =
     (let src = (case attr imgNode ''src'' of Some v \<Rightarrow> v | None \<Rightarrow> []);
          srcset = (case attr imgNode ''srcset'' of Some v \<Rightarrow> v | None \<Rightarrow> []);
          dataSrc = (case attr imgNode ''data-src'' of Some v \<Rightarrow> v | None \<Rightarrow> []);
          srcsetFirst = takeWhile (\<lambda>c. \<not> is_space c) (trim (takeWhile (\<lambda>c. c \<noteq> CHR '','') srcset))
      in case filter (\<lambda>candidate. startsWith candidate ''http'' \<and> str_includes candidate ''hemnet'')
                [src, srcsetFirst, dataSrc] of
           candidate # others \<Rightarrow> candidate
         | [] \<Rightarrow> image_each imgs)"

text \<open>The body of the loop over the listing anchors: \<open>None\<close> where it returns without
  pushing a record.\<close>

definition listing_of :: "string \<Rightarrow> node \<Rightarrow> Listing option" where
  "listing_of locationName el =
     (case attr el ''href'' of
        None \<Rightarrow> None
      | Some href \<Rightarrow>
          if href = [] \<or> \<not> str_includes href ''/bostad/'' then None
          else
            let allText = sel_text [el];
                title = trim (sel_text (first (find_tag el ''h2'')));
                description = take 200 (trim (sel_text (first (find_tag el ''p''))));
                priceMatch = search price_regex allText;
                roomsMatch = search rooms_regex allText;
                areaMatch = search area_regex allText;
                feeMatch = fee_each (find_all el);
                imageUrl = image_each (find_tag el ''img'')
            in if title \<noteq> [] \<or> href \<noteq> []
               then Some \<lparr>title = title,
                          url = (if startsWith href ''http'' then href
                                 else ''https://www.hemnet.se'' @ href),
                          price = (case priceMatch of Some m \<Rightarrow> trim (group0 allText m) | None \<Rightarrow> []),
                          rooms = (case roomsMatch of Some m \<Rightarrow> group0 allText m | None \<Rightarrow> []),
                          area = (case areaMatch of Some m \<Rightarrow> group0 allText m | None \<Rightarrow> []),
                          monthlyFee = (case feeMatch of Some f \<Rightarrow> f | None \<Rightarrow> []),
                          description = description,
                          location = locationName,
                          imageUrl = imageUrl\<rparr>
               else None)"

text \<open>\<^verbatim>\<open>$('a[href*="/bostad/"]')\<close> and the records pushed for its first 25 elements.\<close>

definition listing_anchors :: "node list \<Rightarrow> node list" where
  "listing_anchors doc = filter (attr_contains ''href'' ''/bostad/'') (select doc ''a'')"

definition listings_of :: "node list \<Rightarrow> string \<Rightarrow> Listing list" where
  "listings_of doc locationName =
     List.map_filter (listing_of locationName) (take 25 (listing_anchors doc))"

text \<open>The first part of \<open>searchHemnet\<close>: the location lookup and the search URL. The
  \<open>options\<close> argument has no \<open>locationId\<close> of its own (its type omits the field);
  \<open>loc\<close> is the parameter \<^verbatim>\<open>location\<close>.\<close>

definition searchHemnet_url :: "env \<Rightarrow> string option \<Rightarrow> SearchOptions \<Rightarrow> (string \<times> string) io" where
  "searchHemnet_url e loc options =
     (if truthy_str loc
      then (case findLocationId e (the loc) of
              (reqs, None) \<Rightarrow> (reqs, Inl (LocationNotFound (the loc)))
            | (reqs, Some locationResult) \<Rightarrow>
                (reqs, Inr (buildSearchUrl (options\<lparr>locationId := Some (loc_id locationResult)\<rparr>),
                            loc_name locationResult)))
      else ([], Inr (buildSearchUrl (options\<lparr>locationId := None\<rparr>), ''Sverige'')))"

definition searchHemnet :: "env \<Rightarrow> string option \<Rightarrow> SearchOptions \<Rightarrow> (Listing list \<times> string) io" where
  "searchHemnet e loc options =
     (case searchHemnet_url e loc options of
        (reqs, Inl err) \<Rightarrow> (reqs, Inl err)
      | (reqs, Inr (searchUrl, locationName)) \<Rightarrow>
          (case fetchPage e searchUrl of
             (reqs', Inl err) \<Rightarrow> (reqs @ reqs', Inl err)
           | (reqs', Inr page) \<Rightarrow>
               (reqs @ reqs', Inr (listings_of (cheerio_load e page) locationName, locationName))))"

text \<open>
  \<open>getListingDetails\<close>. The record holds the fields that are read with
  \<open>getDefinitionByTerm\<close>, and the title, the description, the image count, the two flags
  and the coordinates. The other fields of the source (location, price, viewing times,
  agent, agency, broker URL, image URLs, distance to water, down payment, price trend,
  average price) are computed from the same document by further selections and regular
  expressions, each on its own and none that can throw; they are left out of the
  embedding. The coordinates are the two captured texts, to which the source applies
  \<^verbatim>\<open>parseFloat\<close>.
\<close>

record ListingDetails =
  title :: string
  pricePerSqm :: string
  propertyType :: string
  tenureType :: string
  rooms :: string
  area :: string
  balcony :: string
  patio :: string
  floor :: string
  buildYear :: string
  energyClass :: string
  monthlyFee :: string
  runningCosts :: string
  description :: string
  imageCount :: number
  visitCount :: string
  hasFloorPlan :: bool
  hasBankIdBidding :: bool
  coordinates :: "(string \<times> string) option"

text \<open>The loop of \<open>getDefinitionByTerm\<close> over \<^verbatim>\<open>$("dt")\<close>: \<open>value\<close> starts empty and is
  set at the first \<^verbatim>\<open>dt\<close> whose text includes the term.\<close>

fun dt_each :: "(node \<times> node list) list \<Rightarrow> string \<Rightarrow> string" where
  "dt_each [] the_term = []"
| "dt_each ((el, following) # els) the_term =
     (if str_includes (sel_text [el]) the_term
      then trim (sel_text (next_tag following ''dd''))
      else dt_each els the_term)"

definition getDefinitionByTerm :: "node list \<Rightarrow> string \<Rightarrow> string" where
  "getDefinitionByTerm doc the_term =
     dt_each (filter (\<lambda>(el, following). is_tag ''dt'' el) (elems doc)) the_term"

text \<open>The loop over \<^verbatim>\<open>$("p")\<close> for the description.\<close>

fun description_each :: "node list \<Rightarrow> string" where
  "description_each [] = []"
| "description_each (el # els) =
     (let t = trim (sel_text [el])
      in if length t > 200 then t else description_each els)"

text \<open>\<^verbatim>\<open>/^(\d+)\s*bilder$/\<close>, \<^verbatim>\<open>parseInt(digits, 10)\<close> on a string of digits, and the loop
  over \<^verbatim>\<open>$("*")\<close> for the image count.\<close>

definition bilder_regex :: "rx list" where
  "bilder_regex = [Mark, One is_digit, Star is_digit, Mark, Star is_space, Lit ''bilder'', Eos]"

definition digit_val :: "char \<Rightarrow> number" where
  "digit_val c = int (length (takeWhile (\<lambda>d. d \<noteq> c) digit_chars))"

definition parseInt :: "string \<Rightarrow> number" where
  "parseInt ds = foldl (\<lambda>n c. 10 * n + digit_val c) 0 ds"

fun imageCount_each :: "node list \<Rightarrow> number" where
  "imageCount_each [] = 0"
| "imageCount_each (el # els) =
     (let t = trim (sel_text [el])
      in case match_here bilder_regex t of
           Some (n, ms) \<Rightarrow> parseInt (group1 t (0, n, ms))
         | None \<Rightarrow> imageCount_each els)"

text \<open>\<^verbatim>\<open>/ll=([\d.-]+),([\d.-]+)/\<close>\<close>

definition coord_char :: "char \<Rightarrow> bool" where
  "coord_char c = (is_digit c \<or> c = CHR ''.'' \<or> c = CHR ''-'')"

definition coord_regex :: "rx list" where
  "coord_regex = [Lit ''ll='', Mark, One coord_char, Star coord_char, Mark, Lit '','',
                  Mark, One coord_char, Star coord_char, Mark]"

definition coordinates_of :: "node list \<Rightarrow> (string \<times> string) option" where
  "coordinates_of doc =
     (case first (filter (attr_contains ''href'' ''maps.google.com'') (select doc ''a'')) of
        [] \<Rightarrow> None
      | mapsLink # others \<Rightarrow>
          (let mapsHref = (case attr mapsLink ''href'' of Some v \<Rightarrow> v | None \<Rightarrow> [])
           in case search coord_regex mapsHref of
                None \<Rightarrow> None
              | Some coordMatch \<Rightarrow> Some (group1 mapsHref coordMatch, group2 mapsHref coordMatch)))"

text \<open>The part of \<open>getListingDetails\<close> after the checks: the record built from the
  parsed document and the raw markup.\<close>

definition details_of :: "node list \<Rightarrow> string \<Rightarrow> ListingDetails" where
  "details_of doc page =
     \<lparr>title = trim (sel_text (first (select doc ''h1''))),
      pricePerSqm = getDefinitionByTerm doc (''Pris/m'' @ [sup_two]),
      propertyType = getDefinitionByTerm doc ''Bostadstyp'',
      tenureType = getDefinitionByTerm doc (''Uppl'' @ [a_ring] @ ''telseform''),
      rooms = getDefinitionByTerm doc ''Antal rum'',
      area = getDefinitionByTerm doc ''Boarea'',
      balcony = getDefinitionByTerm doc ''Balkong'',
      patio = getDefinitionByTerm doc ''Uteplats'',
      floor = getDefinitionByTerm doc (''V'' @ [a_ring] @ ''ning''),
      buildYear = getDefinitionByTerm doc (''Bygg'' @ [a_ring] @ ''r''),
      energyClass = getDefinitionByTerm doc ''Energiklass'',
      monthlyFee = getDefinitionByTerm doc ''Avgift'',
      runningCosts = getDefinitionByTerm doc ''Driftkostnad'',
      description = description_each (select doc ''p''),
      imageCount = imageCount_each (select_all doc),
      visitCount = getDefinitionByTerm doc (''Antal bes'' @ [o_uml] @ ''k''),
      hasFloorPlan =
        (length (filter (\<lambda>el. str_includes (sel_text [el]) ''Planritning'') (select doc ''button'')) > 0),
      hasBankIdBidding = str_includes (toLowerCase page) ''budgivning med bankid'',
      coordinates = coordinates_of doc\<rparr>"

definition getListingDetails :: "env \<Rightarrow> string \<Rightarrow> ListingDetails io" where
  "getListingDetails e listing_url =
     (if \<not> str_includes listing_url ''hemnet.se/bostad/'' then ([], Inl InvalidListingUrl)
      else (case fetchPage e listing_url of
              (reqs, Inl err) \<Rightarrow> (reqs, Inl err)
            | (reqs, Inr page) \<Rightarrow>
                (let doc = cheerio_load e page
                 in if str_includes page ''Sidan hittades inte'' \<or>
                       str_includes page (''Den h'' @ [a_uml] @ ''r bostaden finns inte l'' @ [a_uml] @ ''ngre'')
                    then (reqs, Inl ListingRemoved)
                    else (reqs, Inr (details_of doc page)))))"

section \<open>Notions used in the statements\<close>

text \<open>The fixed table of parameter names, and the number of parameters of a given name.\<close>

definition param_names :: "string list" where
  "param_names =
     [''location_ids[]'', ''rooms_min'', ''rooms_max'', ''price_min'', ''price_max'',
      ''living_area_min'', ''living_area_max'', ''fee_max'', ''item_types[]'',
      ''new_construction'', ''keywords'', ''upcoming_open_house'', ''balcony'', ''elevator'',
      ''published'', ''order'']"

definition count_name :: "URLSearchParams \<Rightarrow> string \<Rightarrow> nat" where
  "count_name params name = length (filter (\<lambda>p. fst p = name) params)"

text \<open>The query string of a URL, and the parameter names as they are written in a query
  string: of each part between \<^verbatim>\<open>&\<close> that is not empty, the text before its first
  \<^verbatim>\<open>=\<close>.\<close>

fun split_on :: "char \<Rightarrow> string \<Rightarrow> string list" where
  "split_on sep [] = [[]]"
| "split_on sep (c # cs) =
     (if c = sep then [] # split_on sep cs
      else (case split_on sep cs of x # xs \<Rightarrow> (c # x) # xs | [] \<Rightarrow> [[c]]))"

definition query_of :: "string \<Rightarrow> string" where
  "query_of u = drop 1 (dropWhile (\<lambda>c. c \<noteq> CHR ''?'') u)"

definition raw_names :: "string \<Rightarrow> string list" where
  "raw_names q =
     map (takeWhile (\<lambda>c. c \<noteq> CHR ''='')) (filter (\<lambda>x. x \<noteq> []) (split_on (CHR ''&'') q))"

text \<open>The parameters that one conditional \<^verbatim>\<open>append\<close> and the loop over the property
  types contribute.\<close>

definition seg :: "bool \<Rightarrow> string \<Rightarrow> string \<Rightarrow> URLSearchParams" where
  "seg cond name v = (if cond then [(name, v)] else [])"

definition type_params :: "string list option \<Rightarrow> URLSearchParams" where
  "type_params types =
     (case types of
        None \<Rightarrow> []
      | Some ts \<Rightarrow> map (\<lambda>t. (''item_types[]'',
                             ToString (or_else (get_prop PROPERTY_TYPES (toLowerCase t)) t))) ts)"

text \<open>The result that \<open>findLocationId\<close> builds from the outcome of the autocomplete
  request.\<close>

definition from_hits :: "string \<Rightarrow> error + json \<Rightarrow> LocationResult option" where
  "from_hits input r =
     (case r of
        Inr (Array (Some h # rest)) \<Rightarrow>
          Some \<lparr>loc_id = Str (String_num (hit_id h)),
                loc_name = (if hit_name h = [] then input else hit_name h),
                loc_type = (case location_type h of
                              None \<Rightarrow> ''unknown''
                            | Some t \<Rightarrow> if t = [] then ''unknown'' else t)\<rparr>
      | _ \<Rightarrow> None)"

text \<open>The URL of the record of a listing anchor.\<close>

definition anchor_url :: "node \<Rightarrow> string" where
  "anchor_url el =
     (case attr el ''href'' of
        None \<Rightarrow> []
      | Some href \<Rightarrow> if startsWith href ''http'' then href else ''https://www.hemnet.se'' @ href)"

text \<open>The terms that \<open>getListingDetails\<close> looks up, each with the field it fills, and the
  check for a removed listing.\<close>

definition detail_terms :: "(string \<times> (ListingDetails \<Rightarrow> string)) list" where
  "detail_terms =
     [(''Bostadstyp'', propertyType),
      (''Uppl'' @ [a_ring] @ ''telseform'', tenureType),
      (''Antal rum'', ListingDetails.rooms),
      (''Boarea'', ListingDetails.area),
      (''Balkong'', balcony),
      (''Uteplats'', patio),
      (''V'' @ [a_ring] @ ''ning'', floor),
      (''Bygg'' @ [a_ring] @ ''r'', buildYear),
      (''Energiklass'', energyClass),
      (''Avgift'', ListingDetails.monthlyFee),
      (''Driftkostnad'', runningCosts),
      (''Pris/m'' @ [sup_two], pricePerSqm),
      (''Antal bes'' @ [o_uml] @ ''k'', visitCount)]"

definition removed :: "string \<Rightarrow> bool" where
  "removed page =
     (str_includes page ''Sidan hittades inte'' \<or>
      str_includes page (''Den h'' @ [a_uml] @ ''r bostaden finns inte l'' @ [a_uml] @ ''ngre''))"

section \<open>Example inputs\<close>

text \<open>The empty filter \<^verbatim>\<open>{}\<close>.\<close>

definition no_options :: SearchOptions where
  "no_options =
     \<lparr>locationId = None, minRooms = None, maxRooms = None, minPrice = None, maxPrice = None,
      minArea = None, maxArea = None, maxFee = None, propertyTypes = None,
      newConstruction = None, keywords' = None, openHouse = None, hasBalcony = None,
      hasElevator = None, daysListed = None, sortOrder = None\<rparr>"

text \<open>
  An environment with a configured renderer that answers every request with the page
  \<open>rendered\<close>, and a direct fetch that answers with the body \<open>direct\<close>, or fails when
  \<open>direct\<close> is empty. The stand-in for \<^verbatim>\<open>JSON.parse\<close> knows four bodies, the one for
  \<^verbatim>\<open>cheerio.load\<close> returns the document \<open>doc\<close>.
\<close>

definition example_env :: "string \<Rightarrow> string \<Rightarrow> node list \<Rightarrow> env" where
  "example_env direct rendered doc =
     \<lparr>browserRenderUrl = Some ''https://render.example/render'',
      browserRenderApiKey = Some ''secret'',
      fetch = (\<lambda>req. if req_method req = ''GET''
                     then (if direct = [] then None
                           else Some \<lparr>ok = True, status = 200, response_text = direct\<rparr>)
                     else Some \<lparr>ok = True, status = 200, response_text = rendered\<rparr>),
      parse_render_data = (\<lambda>s. Some \<lparr>data_html = Some s, data_error = None\<rparr>),
      JSON_parse = (\<lambda>s. if s = ''[]'' then Some (Array [])
                        else if s = ''[null]'' then Some (Array [None])
                        else if s = ''[{id:900,name:Kiruna kommun,location_type:}]''
                        then Some (Array [Some (Hit 900 ''Kiruna kommun'' (Some []))])
                        else if s = ''[{id:898,name:,location_type:municipality},{id:7}]''
                        then Some (Array [Some (Hit 898 [] (Some ''municipality'')), Some (Hit 7 ''x'' None)])
                        else None),
      cheerio_load = (\<lambda>s. doc)\<rparr>"

definition render_request :: "string \<Rightarrow> request" where
  "render_request u =
     \<lparr>req_url = ''https://render.example/render'', req_method = ''POST'',
      req_headers = [(''Content-Type'', ''application/json''), (''Authorization'', ''Bearer secret'')],
      req_body = RenderBody u 10000\<rparr>"

text \<open>A result page with thirty listing anchors, and a detail page with one labelled
  value.\<close>

definition anchor :: "string \<Rightarrow> node" where
  "anchor s = Element ''a'' [(''href'', ''/bostad/'' @ s)] [Element ''h2'' [] [Text s]]"

definition thirty_names :: "string list" where
  "thirty_names =
     [''lgh-01'', ''lgh-02'', ''lgh-03'', ''lgh-04'', ''lgh-05'', ''lgh-06'', ''lgh-07'',
      ''lgh-08'', ''lgh-09'', ''lgh-10'', ''lgh-11'', ''lgh-12'', ''lgh-13'', ''lgh-14'',
      ''lgh-15'', ''lgh-16'', ''lgh-17'', ''lgh-18'', ''lgh-19'', ''lgh-20'', ''lgh-21'',
      ''lgh-22'', ''lgh-23'', ''lgh-24'', ''lgh-25'', ''lgh-26'', ''lgh-27'', ''lgh-28'',
      ''lgh-29'', ''lgh-30'']"

definition thirty_anchors :: "node list" where
  "thirty_anchors = [Element ''ul'' [] (map anchor thirty_names)]"

definition rooms_page :: "node list" where
  "rooms_page =
     [Element ''dl'' []
        [Element ''dt'' [] [Text ''Antal rum''], Text '' '', Element ''dd'' [] [Text '' 3 rum '']]]"

text \<open>A listing anchor whose fee is written in two text nodes of one element, and one
  whose fee is written in two elements.\<close>

definition fee_in_two_text_nodes :: node where
  "fee_in_two_text_nodes =
     Element ''a'' [(''href'', ''/bostad/1'')]
       [Element ''div'' [] [Text ''1'', Element ''br'' [] [], Text (''200 kr/m'' @ [a_ring] @ ''n'')]]"

definition fee_in_two_elements :: node where
  "fee_in_two_elements =
     Element ''a'' [(''href'', ''/bostad/1'')]
       [Element ''span'' [] [Text ''1 200''], Element ''span'' [] [Text ('' kr/m'' @ [a_ring] @ ''n'')]]"

section \<open>Strings\<close>

lemma str_includes_iff: "str_includes s sub \<longleftrightarrow> (\<exists>pre post. s = pre @ sub @ post)"
proof (induction s)
  case Nil
  then show ?case by auto
next
  case (Cons c cs)
  show ?case
  proof
    assume "str_includes (c # cs) sub"
    then consider "prefix sub (c # cs)" | "str_includes cs sub" by auto
    then show "\<exists>pre post. c # cs = pre @ sub @ post"
    proof cases
      case 1
      then obtain post where "c # cs = sub @ post" by (auto simp: prefix_def)
      then have "c # cs = [] @ sub @ post" by simp
      then show ?thesis by blast
    next
      case 2
      with Cons.IH obtain pre post where "cs = pre @ sub @ post" by blast
      then have "c # cs = (c # pre) @ sub @ post" by simp
      then show ?thesis by blast
    qed
  next
    assume "\<exists>pre post. c # cs = pre @ sub @ post"
    then obtain pre post where eq: "c # cs = pre @ sub @ post" by blast
    show "str_includes (c # cs) sub"
    proof (cases pre)
      case Nil
      with eq have "prefix sub (c # cs)" by (simp add: prefix_def)
      then show ?thesis by simp
    next
      case (Cons p ps)
      with eq have "cs = ps @ sub @ post" by simp
      with Cons.IH have "str_includes cs sub" by blast
      then show ?thesis by simp
    qed
  qed
qed

lemma String_num_examples:
  "String_num 2 = ''2''" "String_num 3000000 = ''3000000''" "String_num 900 = ''900''"
  by (simp_all add: String_num_def nat_digits.simps digit_chars_def)

lemma example_render:
  "rendered \<noteq> [] \<Longrightarrow>
   fetchViaRenderer (example_env direct rendered doc) u = ([render_request u], Inr rendered)"
  by (simp add: fetchViaRenderer_def example_env_def render_request_def truthy_str_def)

section \<open>The regular expressions on examples\<close>

lemma price_regex_example:
  "map_option (group0 ''Pris 2 495 000 kr, 41 583 kr/m'') (search price_regex ''Pris 2 495 000 kr, 41 583 kr/m'')
   = Some ''2 495 000 kr''"
  "search price_regex ''41 583 kr/m'' = None"
  by (simp_all add: price_regex_def match_here.simps search.simps is_digit_def is_space_def)

lemma rooms_regex_example:
  "map_option (group0 ''Storgatan 12, 3 rum'') (search rooms_regex ''Storgatan 12, 3 rum'') = Some ''3 rum''"
  by (simp add: rooms_regex_def match_here.simps search.simps is_digit_def is_space_def)

lemma fee_regex_example:
  "map_option (group0 (''Avgift 4 500 kr/m'' @ [a_ring] @ ''nad''))
     (search fee_regex (''Avgift 4 500 kr/m'' @ [a_ring] @ ''nad''))
   = Some (''4 500 kr/m'' @ [a_ring] @ ''n'')"
  by (simp add: fee_regex_def match_here.simps search.simps is_digit_def is_space_def a_ring_def)

section \<open>Page fetcher\<close>

text \<open>
  C3. Whenever the markup that the rendering backend returns contains the text
  "Verify you are human" anywhere, with any text before and after it, \<open>fetchPage\<close> throws
  the bot-verification error; and a markup that \<open>fetchPage\<close> returns does not contain
  that text.
\<close>

theorem fetchPage_bot_verification:
  "(\<forall>reqs before rest.
      fetchViaRenderer e u = (reqs, Inr (before @ ''Verify you are human'' @ rest))
      \<longrightarrow> fetchPage e u = (reqs, Inl BotVerification))
   \<and> (\<forall>reqs page. fetchPage e u = (reqs, Inr page)
      \<longrightarrow> \<not> (\<exists>before rest. page = before @ ''Verify you are human'' @ rest))"
proof (intro conjI allI impI)
  fix reqs before rest
  assume r: "fetchViaRenderer e u = (reqs, Inr (before @ ''Verify you are human'' @ rest))"
  have "str_includes (before @ ''Verify you are human'' @ rest) ''Verify you are human''"
    unfolding str_includes_iff by blast
  with r show "fetchPage e u = (reqs, Inl BotVerification)"
    by (simp add: fetchPage_def)
next
  fix reqs page
  assume p: "fetchPage e u = (reqs, Inr page)"
  then have "\<not> str_includes page ''Verify you are human''"
    by (auto simp: fetchPage_def split: prod.splits sum.splits if_splits)
  then show "\<not> (\<exists>before rest. page = before @ ''Verify you are human'' @ rest)"
    unfolding str_includes_iff .
qed

theorem fetchPage_bot_verification_witness:
  "fetchViaRenderer (example_env [] ''<html><body>Verify you are human</body></html>'' [])
     ''https://www.hemnet.se/bostader?''
   = ([render_request ''https://www.hemnet.se/bostader?''],
      Inr (''<html><body>'' @ ''Verify you are human'' @ ''</body></html>''))
   \<and> fetchPage (example_env [] ''<html><body>Verify you are human</body></html>'' [])
     ''https://www.hemnet.se/bostader?''
   = ([render_request ''https://www.hemnet.se/bostader?''], Inl BotVerification)"
proof -
  have r: "fetchViaRenderer (example_env [] ''<html><body>Verify you are human</body></html>'' [])
             ''https://www.hemnet.se/bostader?''
           = ([render_request ''https://www.hemnet.se/bostader?''],
              Inr (''<html><body>'' @ ''Verify you are human'' @ ''</body></html>''))"
    by (simp add: example_render)
  with fetchPage_bot_verification
         [of "example_env [] ''<html><body>Verify you are human</body></html>'' []"
             "''https://www.hemnet.se/bostader?''"]
  show ?thesis by blast
qed

section \<open>Listing details: the URL check\<close>

text \<open>
  C9. For every URL that does not contain "hemnet.se/bostad/", \<open>getListingDetails\<close>
  throws the invalid-URL error and has issued no request.
\<close>

theorem getListingDetails_invalid_url:
  "\<not> str_includes listing_url ''hemnet.se/bostad/''
   \<Longrightarrow> getListingDetails e listing_url = ([], Inl InvalidListingUrl)"
  by (simp add: getListingDetails_def)

theorem getListingDetails_invalid_url_witness:
  "\<not> str_includes ''https://example.com/bostad/1'' ''hemnet.se/bostad/''
   \<and> getListingDetails (example_env [] ''<html></html>'' []) ''https://example.com/bostad/1''
     = ([], Inl InvalidListingUrl)"
proof -
  have h: "\<not> str_includes ''https://example.com/bostad/1'' ''hemnet.se/bostad/''"
    by simp
  from h getListingDetails_invalid_url [OF h] show ?thesis by blast
qed

section \<open>Location resolver\<close>

lemma COMMON_LOCATIONS_nonempty: "map_of COMMON_LOCATIONS k = Some v \<Longrightarrow> v \<noteq> []"
  by (auto simp: COMMON_LOCATIONS_def split: if_splits)

lemma get_prop_own: "map_of obj k = Some v \<Longrightarrow> get_prop obj k = Some (Str v)"
  by (simp add: get_prop_def)

lemma normalized_example:
  "trim (toLowerCase (''  G'' @ [CHR 0xD6] @ ''TEBORG '')) = ''g'' @ [o_uml] @ ''teborg''"
  by (simp add: trim_def toLowerCase_def lower_char_def char_of_def bit_0
      is_space_def o_uml_def)

lemma lookup_example: "map_of COMMON_LOCATIONS (''g'' @ [o_uml] @ ''teborg'') = Some ''17920''"
  by (simp add: COMMON_LOCATIONS_def o_uml_def a_uml_def a_ring_def)

text \<open>
  C5. For every input whose lower-cased and trimmed form is a key of
  \<open>COMMON_LOCATIONS\<close>, \<open>findLocationId\<close> returns a result whose id is the value of the
  table for that key, and the list of requests it issued is empty.
\<close>

theorem findLocationId_static:
  assumes "map_of COMMON_LOCATIONS (trim (toLowerCase input)) = Some v"
  shows "fst (findLocationId e input) = [] \<and>
         map_option loc_id (snd (findLocationId e input)) = Some (Str v)"
  using assms COMMON_LOCATIONS_nonempty [OF assms]
  by (simp add: findLocationId_def get_prop_own)

theorem findLocationId_static_witness:
  "map_of COMMON_LOCATIONS (trim (toLowerCase (''  G'' @ [CHR 0xD6] @ ''TEBORG ''))) = Some ''17920''
   \<and> fst (findLocationId (example_env [] ''<html></html>'' []) (''  G'' @ [CHR 0xD6] @ ''TEBORG '')) = []
   \<and> map_option loc_id
        (snd (findLocationId (example_env [] ''<html></html>'' []) (''  G'' @ [CHR 0xD6] @ ''TEBORG '')))
      = Some (Str ''17920'')"
proof -
  have h: "map_of COMMON_LOCATIONS (trim (toLowerCase (''  G'' @ [CHR 0xD6] @ ''TEBORG ''))) = Some ''17920''"
    by (simp only: normalized_example lookup_example)
  from h findLocationId_static [OF h] show ?thesis by blast
qed

text \<open>
  C10. For every input whose lower-cased and trimmed form is a key of
  \<open>COMMON_LOCATIONS\<close>, the result of \<open>findLocationId\<close> carries the input string itself as
  its name, with its casing and surrounding white space, and the type "kommun".
\<close>

theorem findLocationId_static_name:
  assumes "map_of COMMON_LOCATIONS (trim (toLowerCase input)) = Some v"
  shows "map_option loc_name (snd (findLocationId e input)) = Some input \<and>
         map_option loc_type (snd (findLocationId e input)) = Some ''kommun''"
  using assms COMMON_LOCATIONS_nonempty [OF assms]
  by (simp add: findLocationId_def get_prop_own)

theorem findLocationId_static_name_witness:
  "map_of COMMON_LOCATIONS (trim (toLowerCase (''  G'' @ [CHR 0xD6] @ ''TEBORG ''))) = Some ''17920''
   \<and> map_option loc_name
        (snd (findLocationId (example_env [] ''<html></html>'' []) (''  G'' @ [CHR 0xD6] @ ''TEBORG '')))
      = Some (''  G'' @ [CHR 0xD6] @ ''TEBORG '')
   \<and> map_option loc_type
        (snd (findLocationId (example_env [] ''<html></html>'' []) (''  G'' @ [CHR 0xD6] @ ''TEBORG '')))
      = Some ''kommun''"
proof -
  have h: "map_of COMMON_LOCATIONS (trim (toLowerCase (''  G'' @ [CHR 0xD6] @ ''TEBORG ''))) = Some ''17920''"
    by (simp only: normalized_example lookup_example)
  from h findLocationId_static_name [OF h] show ?thesis by blast
qed

lemma fetchViaRenderer_requests:
  "fetchViaRenderer e u = (reqs, r) \<Longrightarrow>
   reqs = [] \<or> (\<exists>q. reqs = [q] \<and> req_method q = ''POST'' \<and> req_body q = RenderBody u 10000)"
  by (auto simp: fetchViaRenderer_def Let_def split: if_splits option.splits)

lemma fetchJson_fallback_requests:
  "fetchJson_fallback e u = (reqs, r) \<Longrightarrow>
   reqs = [] \<or> (\<exists>q. reqs = [q] \<and> req_method q = ''POST'' \<and> req_body q = RenderBody u 10000)"
  using fetchViaRenderer_requests [of e u]
  by (auto simp: fetchJson_fallback_def split: prod.splits sum.splits option.splits)

lemma fetchJson_requests:
  assumes "fetchJson e u = (reqs, r)"
  shows "reqs = [direct_request u] \<or>
         (\<exists>q. reqs = [direct_request u, q] \<and> req_method q = ''POST'' \<and>
              req_body q = RenderBody u 10000)"
proof -
  obtain reqs' r' where fb: "fetchJson_fallback e u = (reqs', r')"
    by (cases "fetchJson_fallback e u")
  from fetchJson_fallback_requests [OF fb] assms fb show ?thesis
    by (auto simp: fetchJson_def Let_def split: option.splits if_splits)
qed

lemma fetchJson_direct_ok:
  "fetch e (direct_request u) = Some resp \<Longrightarrow> ok resp \<Longrightarrow> fst (fetchJson e u) = [direct_request u]"
  by (auto simp: fetchJson_def Let_def split: option.splits prod.splits)

lemma example_env_sel:
  "fetch (example_env direct rendered doc) (direct_request u) =
     (if direct = [] then None else Some \<lparr>ok = True, status = 200, response_text = direct\<rparr>)"
  "JSON_parse (example_env direct rendered doc) ''[]'' = Some (Array [])"
  "JSON_parse (example_env direct rendered doc) ''[null]'' = Some (Array [None])"
  "JSON_parse (example_env direct rendered doc) ''[{id:900,name:Kiruna kommun,location_type:}]''
     = Some (Array [Some (Hit 900 ''Kiruna kommun'' (Some []))])"
  "JSON_parse (example_env direct rendered doc) ''[{id:898,name:,location_type:municipality},{id:7}]''
     = Some (Array [Some (Hit 898 [] (Some ''municipality'')), Some (Hit 7 ''x'' None)])"
  "cheerio_load (example_env direct rendered doc) s = doc"
  by (simp_all add: example_env_def direct_request_def)

lemma kiruna_url:
  "autocomplete_url ''Kiruna'' = ''https://www.hemnet.se/locations/show?q=Kiruna&h=1''"
  by (simp add: autocomplete_url_def encodeURIComponent_def alnum_chars_def)

lemma kiruna_normalized: "trim (toLowerCase ''Kiruna'') = ''kiruna''"
  by (simp add: trim_def toLowerCase_def lower_char_def char_of_def bit_0 is_space_def)

lemma kiruna_miss: "get_prop COMMON_LOCATIONS ''kiruna'' = None"
  by (simp add: get_prop_def COMMON_LOCATIONS_def Object_prototype_def o_uml_def a_uml_def a_ring_def)

lemma fetchJson_direct_example:
  "direct \<noteq> [] \<Longrightarrow> JSON_parse (example_env direct rendered doc) direct = Some v \<Longrightarrow>
   fetchJson (example_env direct rendered doc) u = ([direct_request u], Inr v)"
  by (simp add: fetchJson_def Let_def example_env_sel)

lemma pre_example:
  "map_option (\<lambda>m. trim (group1 ''<pre>[{id:900,name:Kiruna kommun,location_type:}]</pre>'' m))
     (search pre_regex ''<pre>[{id:900,name:Kiruna kommun,location_type:}]</pre>'')
   = Some ''[{id:900,name:Kiruna kommun,location_type:}]''"
  by (simp add: match_here.simps search.simps pre_regex_def toLowerCase_def lower_char_def
      char_of_def bit_0 trim_def is_space_def)

lemma fetchJson_fallback_example:
  "fetchJson_fallback
     (example_env [] ''<pre>[{id:900,name:Kiruna kommun,location_type:}]</pre>'' []) u
   = ([render_request u], Inr (Array [Some (Hit 900 ''Kiruna kommun'' (Some []))]))"
proof -
  from pre_example obtain m where
    m: "search pre_regex ''<pre>[{id:900,name:Kiruna kommun,location_type:}]</pre>'' = Some m"
    and t: "trim (group1 ''<pre>[{id:900,name:Kiruna kommun,location_type:}]</pre>'' m)
            = ''[{id:900,name:Kiruna kommun,location_type:}]''"
    by blast
  show ?thesis
    by (simp add: fetchJson_fallback_def example_render m t example_env_sel)
qed

text \<open>When the direct request fails, the same lookup goes through the rendering
  backend: two requests for one call of \<open>fetchJson\<close>.\<close>

lemma fetchJson_two_requests:
  "fetchJson (example_env [] ''<pre>[{id:900,name:Kiruna kommun,location_type:}]</pre>'' []) u
   = ([direct_request u, render_request u], Inr (Array [Some (Hit 900 ''Kiruna kommun'' (Some []))]))"
  by (simp add: fetchJson_def Let_def example_env_sel fetchJson_fallback_example)

text \<open>A name inherited from \<^verbatim>\<open>Object.prototype\<close> is found in the table object although
  it is no key of it: no request is made and the id is the inherited built-in.\<close>

lemma findLocationId_inherited_name:
  "findLocationId e '' Constructor ''
   = ([], Some \<lparr>loc_id = Builtin ''constructor'', loc_name = '' Constructor '', loc_type = ''kommun''\<rparr>)"
  by (simp add: findLocationId_def get_prop_def COMMON_LOCATIONS_def Object_prototype_def
      o_uml_def a_uml_def a_ring_def toLowerCase_def lower_char_def char_of_def bit_0
      trim_def is_space_def)

text \<open>A response whose first element is \<^verbatim>\<open>null\<close> gives null, after the one request.\<close>

lemma findLocationId_null_hit:
  "findLocationId (example_env ''[null]'' ''<html></html>'' []) ''Kiruna''
   = ([direct_request ''https://www.hemnet.se/locations/show?q=Kiruna&h=1''], None)"
proof -
  have "fetchJson (example_env ''[null]'' ''<html></html>'' [])
          ''https://www.hemnet.se/locations/show?q=Kiruna&h=1''
        = ([direct_request ''https://www.hemnet.se/locations/show?q=Kiruna&h=1''], Inr (Array [None]))"
    by (rule fetchJson_direct_example) (simp_all add: example_env_sel)
  then show ?thesis
    by (simp add: findLocationId_def kiruna_normalized kiruna_miss kiruna_url)
qed

text \<open>
  C6, as the source has it. For every input (a string without a lone surrogate, as all
  strings here are) whose lower-cased and trimmed form is not a property of the table
  object, \<open>findLocationId\<close> calls \<open>fetchJson\<close> once on the autocomplete URL. That call
  issues one direct request and, only when the direct request fails or its status is not
  OK, one request through the rendering backend. If the outcome is a non-empty array whose
  first element is a hit, the result is built from that hit: the id is the decimal numeral
  of the hit's id, the name is the hit's name, or the input when that name is empty, and
  the type is the hit's \<open>location_type\<close> unchanged when it is a non-empty string, and
  "unknown" when it is missing or empty. On an error, a value that is no array, an empty
  array, or an array whose first element is null the result is null, and no further
  request is made.
\<close>

theorem findLocationId_autocomplete:
  assumes "get_prop COMMON_LOCATIONS (trim (toLowerCase input)) = None"
  shows "\<exists>reqs r. fetchJson e (autocomplete_url input) = (reqs, r) \<and>
           (reqs = [direct_request (autocomplete_url input)] \<or>
            (\<exists>q. reqs = [direct_request (autocomplete_url input), q] \<and> req_method q = ''POST'' \<and>
                 req_body q = RenderBody (autocomplete_url input) 10000)) \<and>
           (\<forall>resp. fetch e (direct_request (autocomplete_url input)) = Some resp \<and> ok resp
              \<longrightarrow> reqs = [direct_request (autocomplete_url input)]) \<and>
           findLocationId e input = (reqs, from_hits input r)"
proof -
  obtain reqs r where fj: "fetchJson e (autocomplete_url input) = (reqs, r)"
    by (cases "fetchJson e (autocomplete_url input)")
  have "findLocationId e input = (reqs, from_hits input r)"
    using assms fj
    by (auto simp: findLocationId_def from_hits_def Let_def truthy_str_def
        split: sum.splits json.splits list.splits option.splits)
  moreover have "\<forall>resp. fetch e (direct_request (autocomplete_url input)) = Some resp \<and> ok resp
                   \<longrightarrow> reqs = [direct_request (autocomplete_url input)]"
    using fetchJson_direct_ok [of e "autocomplete_url input"] fj by auto
  ultimately show ?thesis using fj fetchJson_requests [OF fj] by blast
qed

theorem findLocationId_autocomplete_witness:
  "get_prop COMMON_LOCATIONS (trim (toLowerCase ''Kiruna'')) = None
   \<and> findLocationId
       (example_env ''[{id:898,name:,location_type:municipality},{id:7}]'' ''<html></html>'' [])
       ''Kiruna''
     = ([direct_request ''https://www.hemnet.se/locations/show?q=Kiruna&h=1''],
        Some \<lparr>loc_id = Str ''898'', loc_name = ''Kiruna'', loc_type = ''municipality''\<rparr>)"
proof -
  let ?e = "example_env ''[{id:898,name:,location_type:municipality},{id:7}]'' ''<html></html>'' []"
  have h: "get_prop COMMON_LOCATIONS (trim (toLowerCase ''Kiruna'')) = None"
    by (simp only: kiruna_normalized kiruna_miss)
  have fj: "fetchJson ?e (autocomplete_url ''Kiruna'')
            = ([direct_request (autocomplete_url ''Kiruna'')],
               Inr (Array [Some (Hit 898 [] (Some ''municipality'')), Some (Hit 7 ''x'' None)]))"
    by (rule fetchJson_direct_example) (simp_all add: example_env_sel)
  from findLocationId_autocomplete [OF h, of ?e] fj
  have "findLocationId ?e ''Kiruna''
        = ([direct_request (autocomplete_url ''Kiruna'')],
           from_hits ''Kiruna'' (Inr (Array [Some (Hit 898 [] (Some ''municipality'')), Some (Hit 7 ''x'' None)])))"
    by auto
  then show ?thesis
    using h by (simp add: from_hits_def kiruna_url String_num_def nat_digits.simps digit_chars_def)
qed

text \<open>
  C6, as stated, fails. Here the direct request for the autocomplete URL fails, and the
  lookup is made again through the rendering backend: two requests are issued and a result
  is returned. The hit reports the empty string as its type, and the result has the type
  "unknown", not the reported one.
\<close>

theorem findLocationId_fallback_unknown_type:
  "fetch (example_env [] ''<pre>[{id:900,name:Kiruna kommun,location_type:}]</pre>'' [])
     (direct_request ''https://www.hemnet.se/locations/show?q=Kiruna&h=1'') = None
   \<and> location_type (Hit 900 ''Kiruna kommun'' (Some [])) = Some []
   \<and> findLocationId
       (example_env [] ''<pre>[{id:900,name:Kiruna kommun,location_type:}]</pre>'' []) ''Kiruna''
     = ([direct_request ''https://www.hemnet.se/locations/show?q=Kiruna&h=1'',
         render_request ''https://www.hemnet.se/locations/show?q=Kiruna&h=1''],
        Some \<lparr>loc_id = Str ''900'', loc_name = ''Kiruna kommun'', loc_type = ''unknown''\<rparr>)"
  by (simp add: findLocationId_def kiruna_normalized kiruna_miss kiruna_url fetchJson_two_requests
      truthy_str_def String_num_examples example_env_sel)

section \<open>Query builder\<close>

lemma append_if_seg: "append_if cond name v params = params @ seg cond name v"
  by (simp add: append_if_def append_def seg_def)

lemma fold_append:
  "fold (\<lambda>t ps. append ps name (f t)) ts params = params @ map (\<lambda>t. (name, f t)) ts"
  by (induction ts arbitrary: params) (simp_all add: append_def)

lemma append_types_params: "append_types types params = params @ type_params types"
  by (cases types) (simp_all add: append_types_def type_params_def fold_append Let_def)

lemma searchParams_segments:
  "searchParams options =
     seg (truthy (locationId options)) ''location_ids[]'' (ToString (the (locationId options))) @
     seg (truthy_num (minRooms options)) ''rooms_min'' (String_num (the (minRooms options))) @
     seg (truthy_num (maxRooms options)) ''rooms_max'' (String_num (the (maxRooms options))) @
     seg (truthy_num (minPrice options)) ''price_min'' (String_num (the (minPrice options))) @
     seg (truthy_num (maxPrice options)) ''price_max'' (String_num (the (maxPrice options))) @
     seg (truthy_num (minArea options)) ''living_area_min'' (String_num (the (minArea options))) @
     seg (truthy_num (maxArea options)) ''living_area_max'' (String_num (the (maxArea options))) @
     seg (truthy_num (maxFee options)) ''fee_max'' (String_num (the (maxFee options))) @
     type_params (propertyTypes options) @
     seg (newConstruction options \<noteq> None) ''new_construction''
       (ncMap (the (newConstruction options))) @
     seg (truthy_str (keywords' options)) ''keywords'' (the (keywords' options)) @
     seg (openHouse options \<noteq> None) ''upcoming_open_house''
       (open_house_str (the (openHouse options))) @
     seg (truthy_bool (hasBalcony options)) ''balcony'' ''1'' @
     seg (truthy_bool (hasElevator options)) ''elevator'' ''1'' @
     seg (truthy_num (daysListed options)) ''published''
       (ToString (or_else (get_prop daysMap (String_num (the (daysListed options))))
                    (String_num (the (daysListed options))))) @
     seg (truthy_str (sortOrder options)) ''order''
       (ToString (or_else (get_prop SORT_ORDERS (toLowerCase (the (sortOrder options))))
                    (the (sortOrder options))))"
  by (simp add: searchParams_def Let_def append_if_seg append_types_params)

lemma count_name_append: "count_name (ps @ qs) n = count_name ps n + count_name qs n"
  by (simp add: count_name_def)

lemma count_name_seg_same: "count_name (seg cond n v) n = (if cond then 1 else 0)"
  by (simp add: count_name_def seg_def)

lemma count_name_seg_other: "m \<noteq> n \<Longrightarrow> count_name (seg cond n v) m = 0"
  by (auto simp: count_name_def seg_def)

lemma count_name_types_same:
  "count_name (type_params types) ''item_types[]''
   = (case types of None \<Rightarrow> 0 | Some ts \<Rightarrow> length ts)"
  by (cases types) (simp_all add: count_name_def type_params_def)

lemma count_name_types_other: "m \<noteq> ''item_types[]'' \<Longrightarrow> count_name (type_params types) m = 0"
  by (cases types) (auto simp: count_name_def type_params_def filter_empty_conv)

lemma names_seg: "n \<in> S \<Longrightarrow> fst ` set (seg cond n v) \<subseteq> S"
  by (auto simp: seg_def)

lemma names_types: "''item_types[]'' \<in> S \<Longrightarrow> fst ` set (type_params types) \<subseteq> S"
  by (cases types) (auto simp: type_params_def)

lemma searchParams_names: "fst ` set (searchParams options) \<subseteq> set param_names"
  by (simp add: searchParams_segments image_Un names_seg names_types param_names_def)

lemmas count_rules = searchParams_segments count_name_append count_name_seg_same
  count_name_seg_other count_name_types_same count_name_types_other

lemma searchParams_not_in_table:
  "m \<notin> set param_names \<Longrightarrow> count_name (searchParams options) m = 0"
  by (simp add: count_rules param_names_def)

lemma split_on_nonempty: "split_on sep s \<noteq> []"
  by (induction s) (auto split: list.splits)

lemma split_on_no_sep: "sep \<notin> set x \<Longrightarrow> split_on sep x = [x]"
  by (induction x) auto

lemma split_on_append: "sep \<notin> set x \<Longrightarrow> split_on sep (x @ sep # rest) = x # split_on sep rest"
  by (induction x) (auto split: list.splits)

lemma split_on_join_aux:
  "s = [sep] \<Longrightarrow> xs \<noteq> [] \<Longrightarrow> \<forall>x\<in>set xs. sep \<notin> set x \<Longrightarrow> split_on sep (join s xs) = xs"
proof (induction s xs rule: join.induct)
  case (1 s)
  then show ?case by simp
next
  case (2 s x)
  then show ?case by (simp add: split_on_no_sep)
next
  case (3 s x y ys)
  then have "split_on sep (join s (y # ys)) = y # ys" by simp
  moreover have "join s (x # y # ys) = x @ sep # join s (y # ys)" using 3(2) by simp
  moreover have "sep \<notin> set x" using 3(4) by simp
  ultimately show ?case by (simp add: split_on_append)
qed

lemma split_on_join:
  "xs \<noteq> [] \<Longrightarrow> \<forall>x\<in>set xs. sep \<notin> set x \<Longrightarrow> split_on sep (join [sep] xs) = xs"
  by (rule split_on_join_aux) simp_all

lemma of_char_lt_256: "(of_char c :: nat) < 256"
proof -
  have "(of_char c :: nat) mod 256 < 256" by simp
  then show ?thesis by simp
qed

lemma utf8_bytes: "b \<in> set (utf8 c) \<Longrightarrow> b < 256"
proof -
  assume b: "b \<in> set (utf8 c)"
  have n: "(of_char c :: nat) < 256" by (rule of_char_lt_256)
  then have "(of_char c :: nat) div 64 < 4" "(of_char c :: nat) mod 64 < 64" by arith+
  with b n show ?thesis by (auto simp: utf8_def Let_def split: if_splits)
qed

lemma hex_digit: "k < 16 \<Longrightarrow> hex_chars ! k \<in> set hex_chars"
proof -
  assume "k < 16"
  moreover have "length hex_chars = 16" by (simp add: hex_chars_def)
  ultimately show ?thesis using nth_mem [of k hex_chars] by simp
qed

lemma percent_chars: "b < 256 \<Longrightarrow> set (percent b) \<subseteq> insert (CHR ''%'') (set hex_chars)"
proof -
  assume "b < 256"
  then have "b div 16 < 16" "b mod 16 < 16" by simp_all
  then show ?thesis using hex_digit by (simp add: percent_def)
qed

lemma form_encode_char_chars:
  "set (form_encode_char c) \<subseteq> insert (CHR ''+'') (insert (CHR ''%'') (set hex_chars \<union> set alnum_chars \<union> set ''*-._''))"
proof -
  have "\<forall>b\<in>set (utf8 c). set (percent b) \<subseteq> insert (CHR ''%'') (set hex_chars)"
    using utf8_bytes percent_chars by blast
  then have "set (concat (map percent (utf8 c))) \<subseteq> insert (CHR ''%'') (set hex_chars)"
    by auto
  then show ?thesis
    unfolding form_encode_char_def by auto
qed

lemma form_encode_no_sep: "CHR ''&'' \<notin> set (form_encode s)" "CHR ''='' \<notin> set (form_encode s)"
proof -
  have a: "CHR ''&'' \<notin> insert (CHR ''+'') (insert (CHR ''%'') (set hex_chars \<union> set alnum_chars \<union> set ''*-._''))"
    by (simp add: hex_chars_def alnum_chars_def)
  have b: "CHR ''='' \<notin> insert (CHR ''+'') (insert (CHR ''%'') (set hex_chars \<union> set alnum_chars \<union> set ''*-._''))"
    by (simp add: hex_chars_def alnum_chars_def)
  have "set (form_encode s) \<subseteq> insert (CHR ''+'') (insert (CHR ''%'') (set hex_chars \<union> set alnum_chars \<union> set ''*-._''))"
    using form_encode_char_chars by (auto simp: form_encode_def)
  with a b show "CHR ''&'' \<notin> set (form_encode s)" "CHR ''='' \<notin> set (form_encode s)" by blast+
qed

lemma raw_names_toString: "raw_names (toString params) = map (\<lambda>p. form_encode (fst p)) params"
proof (cases "params = []")
  case True
  then show ?thesis by (simp add: raw_names_def toString_def)
next
  case False
  let ?ser = "\<lambda>(n, v). form_encode n @ ''='' @ form_encode v"
  have ne: "map ?ser params \<noteq> []" using False by simp
  have ns: "\<forall>x\<in>set (map ?ser params). CHR ''&'' \<notin> set x"
    using form_encode_no_sep(1) by auto
  have sp: "split_on (CHR ''&'') (toString params) = map ?ser params"
    unfolding toString_def using split_on_join [OF ne ns] by simp
  have "filter (\<lambda>x. x \<noteq> []) (map ?ser params) = map ?ser params"
    by (auto simp: filter_id_conv)
  moreover have "map (takeWhile (\<lambda>c. c \<noteq> CHR ''='')) (map ?ser params) = map (\<lambda>p. form_encode (fst p)) params"
    using form_encode_no_sep(2) by (auto simp: takeWhile_tail)
  ultimately show ?thesis by (simp add: raw_names_def sp)
qed

lemma query_of_buildSearchUrl: "query_of (buildSearchUrl options) = toString (searchParams options)"
  by (simp add: query_of_def buildSearchUrl_def)


text \<open>
  C1, as the source has it. The URL is the fixed prefix followed by the serialised
  parameters, and the names written in its query string are the encoded names of the
  parameters, in order. Every parameter name belongs to the fixed table. A field produces exactly
  one parameter of its name when it is present with a truthy value (a non-empty string, a
  number other than zero, \<open>true\<close>, any value of the two enumerations), and no parameter
  when it is absent or set to zero, the empty string or \<open>false\<close>; the property types
  produce one parameter per element of the array.
\<close>

theorem buildSearchUrl_parameters:
  "buildSearchUrl options = ''https://www.hemnet.se/bostader?'' @ toString (searchParams options)
   \<and> raw_names (query_of (buildSearchUrl options))
       = map (\<lambda>p. form_encode (fst p)) (searchParams options)
   \<and> set (raw_names (query_of (buildSearchUrl options))) \<subseteq> form_encode ` set param_names
   \<and> fst ` set (searchParams options) \<subseteq> set param_names
   \<and> count_name (searchParams options) ''location_ids[]''
       = (if truthy (locationId options) then 1 else 0)
   \<and> count_name (searchParams options) ''rooms_min''
       = (if truthy_num (minRooms options) then 1 else 0)
   \<and> count_name (searchParams options) ''rooms_max''
       = (if truthy_num (maxRooms options) then 1 else 0)
   \<and> count_name (searchParams options) ''price_min''
       = (if truthy_num (minPrice options) then 1 else 0)
   \<and> count_name (searchParams options) ''price_max''
       = (if truthy_num (maxPrice options) then 1 else 0)
   \<and> count_name (searchParams options) ''living_area_min''
       = (if truthy_num (minArea options) then 1 else 0)
   \<and> count_name (searchParams options) ''living_area_max''
       = (if truthy_num (maxArea options) then 1 else 0)
   \<and> count_name (searchParams options) ''fee_max''
       = (if truthy_num (maxFee options) then 1 else 0)
   \<and> count_name (searchParams options) ''item_types[]''
       = (case propertyTypes options of None \<Rightarrow> 0 | Some ts \<Rightarrow> length ts)
   \<and> count_name (searchParams options) ''new_construction''
       = (if newConstruction options \<noteq> None then 1 else 0)
   \<and> count_name (searchParams options) ''keywords''
       = (if truthy_str (keywords' options) then 1 else 0)
   \<and> count_name (searchParams options) ''upcoming_open_house''
       = (if openHouse options \<noteq> None then 1 else 0)
   \<and> count_name (searchParams options) ''balcony''
       = (if truthy_bool (hasBalcony options) then 1 else 0)
   \<and> count_name (searchParams options) ''elevator''
       = (if truthy_bool (hasElevator options) then 1 else 0)
   \<and> count_name (searchParams options) ''published''
       = (if truthy_num (daysListed options) then 1 else 0)
   \<and> count_name (searchParams options) ''order''
       = (if truthy_str (sortOrder options) then 1 else 0)"
proof -
  have url: "buildSearchUrl options
             = ''https://www.hemnet.se/bostader?'' @ toString (searchParams options)"
    by (simp add: buildSearchUrl_def)
  have c1: "count_name (searchParams options) ''location_ids[]''
            = (if truthy (locationId options) then 1 else 0)"
    by (simp add: count_rules)
  have c2: "count_name (searchParams options) ''rooms_min''
            = (if truthy_num (minRooms options) then 1 else 0)"
    by (simp add: count_rules)
  have c3: "count_name (searchParams options) ''rooms_max''
            = (if truthy_num (maxRooms options) then 1 else 0)"
    by (simp add: count_rules)
  have c4: "count_name (searchParams options) ''price_min''
            = (if truthy_num (minPrice options) then 1 else 0)"
    by (simp add: count_rules)
  have c5: "count_name (searchParams options) ''price_max''
            = (if truthy_num (maxPrice options) then 1 else 0)"
    by (simp add: count_rules)
  have c6: "count_name (searchParams options) ''living_area_min''
            = (if truthy_num (minArea options) then 1 else 0)"
    by (simp add: count_rules)
  have c7: "count_name (searchParams options) ''living_area_max''
            = (if truthy_num (maxArea options) then 1 else 0)"
    by (simp add: count_rules)
  have c8: "count_name (searchParams options) ''fee_max''
            = (if truthy_num (maxFee options) then 1 else 0)"
    by (simp add: count_rules)
  have c9: "count_name (searchParams options) ''item_types[]''
            = (case propertyTypes options of None \<Rightarrow> 0 | Some ts \<Rightarrow> length ts)"
    by (simp add: count_rules)
  have c10: "count_name (searchParams options) ''new_construction''
             = (if newConstruction options \<noteq> None then 1 else 0)"
    by (simp add: count_rules)
  have c11: "count_name (searchParams options) ''keywords''
             = (if truthy_str (keywords' options) then 1 else 0)"
    by (simp add: count_rules)
  have c12: "count_name (searchParams options) ''upcoming_open_house''
             = (if openHouse options \<noteq> None then 1 else 0)"
    by (simp add: count_rules)
  have c13: "count_name (searchParams options) ''balcony''
             = (if truthy_bool (hasBalcony options) then 1 else 0)"
    by (simp add: count_rules)
  have c14: "count_name (searchParams options) ''elevator''
             = (if truthy_bool (hasElevator options) then 1 else 0)"
    by (simp add: count_rules)
  have c15: "count_name (searchParams options) ''published''
             = (if truthy_num (daysListed options) then 1 else 0)"
    by (simp add: count_rules)
  have c16: "count_name (searchParams options) ''order''
             = (if truthy_str (sortOrder options) then 1 else 0)"
    by (simp add: count_rules)
  have raw: "raw_names (query_of (buildSearchUrl options))
             = map (\<lambda>p. form_encode (fst p)) (searchParams options)"
    by (simp only: query_of_buildSearchUrl raw_names_toString)
  have "set (map (\<lambda>p. form_encode (fst p)) (searchParams options))
        \<subseteq> form_encode ` set param_names"
    using searchParams_names [of options] by auto
  with raw have sub: "set (raw_names (query_of (buildSearchUrl options)))
                      \<subseteq> form_encode ` set param_names"
    by simp
  from url raw sub searchParams_names c1 c2 c3 c4 c5 c6 c7 c8 c9 c10 c11 c12 c13 c14 c15 c16
  show ?thesis by blast
qed

lemma searchParams_example:
  "searchParams (no_options\<lparr>locationId := Some (Str ''17744''), minRooms := Some 2,
      propertyTypes := Some [''Apartment'', ''villa''], hasBalcony := Some True\<rparr>)
   = [(''location_ids[]'', ''17744''), (''rooms_min'', ''2''), (''item_types[]'', ''bostadsratt''),
      (''item_types[]'', ''villa''), (''balcony'', ''1'')]"
  by (simp add: searchParams_segments no_options_def seg_def type_params_def truthy_num_def
      truthy_str_def truthy_bool_def String_num_examples or_else_def get_prop_def
      PROPERTY_TYPES_def toLowerCase_def lower_char_def char_of_def bit_0
      a_uml_def a_ring_def)

theorem buildSearchUrl_parameters_witness:
  "buildSearchUrl (no_options\<lparr>locationId := Some (Str ''17744''), minRooms := Some 2,
      propertyTypes := Some [''Apartment'', ''villa''], hasBalcony := Some True\<rparr>)
   = ''https://www.hemnet.se/bostader?'' @
     ''location_ids%5B%5D=17744&rooms_min=2&item_types%5B%5D=bostadsratt&item_types%5B%5D=villa&balcony=1''
   \<and> raw_names (query_of (buildSearchUrl (no_options\<lparr>locationId := Some (Str ''17744''),
        minRooms := Some 2, propertyTypes := Some [''Apartment'', ''villa''], hasBalcony := Some True\<rparr>)))
     = [''location_ids%5B%5D'', ''rooms_min'', ''item_types%5B%5D'', ''item_types%5B%5D'', ''balcony'']
   \<and> count_name (searchParams (no_options\<lparr>locationId := Some (Str ''17744''), minRooms := Some 2,
        propertyTypes := Some [''Apartment'', ''villa''], hasBalcony := Some True\<rparr>)) ''item_types[]'' = 2
   \<and> count_name (searchParams (no_options\<lparr>locationId := Some (Str ''17744''), minRooms := Some 2,
        propertyTypes := Some [''Apartment'', ''villa''], hasBalcony := Some True\<rparr>)) ''balcony'' = 1
   \<and> count_name (searchParams (no_options\<lparr>locationId := Some (Str ''17744''), minRooms := Some 2,
        propertyTypes := Some [''Apartment'', ''villa''], hasBalcony := Some True\<rparr>)) ''elevator'' = 0"
proof -
  let ?o = "no_options\<lparr>locationId := Some (Str ''17744''), minRooms := Some 2,
      propertyTypes := Some [''Apartment'', ''villa''], hasBalcony := Some True\<rparr>"
  have s: "toString [(''location_ids[]'', ''17744''), (''rooms_min'', ''2''),
             (''item_types[]'', ''bostadsratt''), (''item_types[]'', ''villa''), (''balcony'', ''1'')]
           = ''location_ids%5B%5D=17744&rooms_min=2&item_types%5B%5D=bostadsratt&item_types%5B%5D=villa&balcony=1''"
    by (simp add: toString_def form_encode_def form_encode_char_def alnum_chars_def utf8_def
        percent_def hex_chars_def)
  have f: "propertyTypes ?o = Some [''Apartment'', ''villa'']" "truthy_bool (hasBalcony ?o)"
    "\<not> truthy_bool (hasElevator ?o)"
    by (simp_all add: no_options_def truthy_bool_def)
  have e: "form_encode ''location_ids[]'' = ''location_ids%5B%5D''"
    "form_encode ''item_types[]'' = ''item_types%5B%5D''"
    "form_encode ''rooms_min'' = ''rooms_min''" "form_encode ''balcony'' = ''balcony''"
    by (simp_all add: form_encode_def form_encode_char_def alnum_chars_def utf8_def percent_def
        hex_chars_def)
  note t = buildSearchUrl_parameters [of ?o]
  from t have "raw_names (query_of (buildSearchUrl ?o))
               = map (\<lambda>p. form_encode (fst p)) (searchParams ?o)"
    by blast
  then have r: "raw_names (query_of (buildSearchUrl ?o))
                = [''location_ids%5B%5D'', ''rooms_min'', ''item_types%5B%5D'', ''item_types%5B%5D'',
                   ''balcony'']"
    by (simp add: searchParams_example e)
  from t have u: "buildSearchUrl ?o = ''https://www.hemnet.se/bostader?'' @ toString (searchParams ?o)"
    by blast
  from t f have c: "count_name (searchParams ?o) ''item_types[]'' = 2"
    "count_name (searchParams ?o) ''balcony'' = 1" "count_name (searchParams ?o) ''elevator'' = 0"
    by simp_all
  from u r c show ?thesis
    by (simp only: searchParams_example s)
qed

text \<open>
  C1, as stated, fails: in this filter the fields \<open>minRooms\<close> and \<open>hasBalcony\<close> are
  present, set to \<open>0\<close> and \<open>false\<close>, and the URL has no parameter at all.
\<close>

theorem buildSearchUrl_falsy_fields:
  "minRooms (no_options\<lparr>minRooms := Some 0, hasBalcony := Some False\<rparr>) = Some 0
   \<and> hasBalcony (no_options\<lparr>minRooms := Some 0, hasBalcony := Some False\<rparr>) = Some False
   \<and> searchParams (no_options\<lparr>minRooms := Some 0, hasBalcony := Some False\<rparr>) = []
   \<and> buildSearchUrl (no_options\<lparr>minRooms := Some 0, hasBalcony := Some False\<rparr>)
     = ''https://www.hemnet.se/bostader?''"
  by (simp add: buildSearchUrl_def toString_def searchParams_segments no_options_def seg_def
      type_params_def truthy_num_def truthy_str_def truthy_bool_def)

lemma searchParams_rooms_price:
  "searchParams (no_options\<lparr>minRooms := Some 2, maxPrice := Some 3000000\<rparr>)
   = [(''rooms_min'', ''2''), (''price_max'', ''3000000'')]"
  by (simp add: searchParams_segments no_options_def seg_def type_params_def truthy_num_def
      truthy_str_def truthy_bool_def String_num_examples)

lemma toString_rooms_price:
  "toString [(''rooms_min'', ''2''), (''price_max'', ''3000000'')] = ''rooms_min=2&price_max=3000000''"
  by (simp add: toString_def form_encode_def form_encode_char_def alnum_chars_def)

text \<open>
  C7. For the filter with \<open>minRooms = 2\<close> and \<open>maxPrice = 3000000\<close> and no location,
  \<open>searchHemnet\<close> builds, without any request, the URL whose query string is exactly
  \<^verbatim>\<open>rooms_min=2&price_max=3000000\<close>; its parameters have no \<^verbatim>\<open>location_ids[]\<close>, and the
  text \<^verbatim>\<open>location_ids\<close> does not occur in the URL.
\<close>

theorem searchHemnet_url_rooms_price:
  "searchHemnet_url e None (no_options\<lparr>minRooms := Some 2, maxPrice := Some 3000000\<rparr>)
   = ([], Inr (''https://www.hemnet.se/bostader?'' @ ''rooms_min=2&price_max=3000000'', ''Sverige''))
   \<and> buildSearchUrl (no_options\<lparr>minRooms := Some 2, maxPrice := Some 3000000\<rparr>)
     = ''https://www.hemnet.se/bostader?'' @ ''rooms_min=2&price_max=3000000''
   \<and> count_name (searchParams (no_options\<lparr>minRooms := Some 2, maxPrice := Some 3000000\<rparr>))
       ''location_ids[]'' = 0
   \<and> \<not> str_includes (buildSearchUrl (no_options\<lparr>minRooms := Some 2, maxPrice := Some 3000000\<rparr>))
       ''location_ids''"
proof -
  have "(no_options\<lparr>minRooms := Some 2, maxPrice := Some 3000000\<rparr>)\<lparr>locationId := None\<rparr>
        = no_options\<lparr>minRooms := Some 2, maxPrice := Some 3000000\<rparr>"
    by (simp add: no_options_def)
  then show ?thesis
    by (simp add: searchHemnet_url_def truthy_str_def buildSearchUrl_def searchParams_rooms_price
        toString_rooms_price count_name_def)
qed

section \<open>Search results\<close>

lemma listing_of_anchor:
  assumes "attr_contains ''href'' ''/bostad/'' el"
  shows "\<exists>l. listing_of nm el = Some l \<and> Listing.url l = anchor_url el"
proof -
  from assms obtain href where h: "attr el ''href'' = Some href"
    and i: "str_includes href ''/bostad/''"
    by (auto simp: attr_contains_def split: option.splits)
  from i have "href \<noteq> []" by auto
  with h i show ?thesis
    by (simp add: listing_of_def anchor_url_def Let_def)
qed

lemma map_filter_all_Some:
  "\<forall>x\<in>set xs. \<exists>y. f x = Some y \<Longrightarrow> map Some (List.map_filter f xs) = map f xs"
  by (induction xs) (auto simp: List.map_filter_simps)

lemma listings_of_records:
  "map Some (listings_of doc nm) = map (listing_of nm) (take 25 (listing_anchors doc))"
proof -
  have "\<forall>el\<in>set (take 25 (listing_anchors doc)). \<exists>l. listing_of nm el = Some l"
  proof
    fix el assume "el \<in> set (take 25 (listing_anchors doc))"
    then have "el \<in> set (listing_anchors doc)" by (rule in_set_takeD)
    then have "attr_contains ''href'' ''/bostad/'' el" by (simp add: listing_anchors_def)
    from listing_of_anchor [OF this] show "\<exists>l. listing_of nm el = Some l" by blast
  qed
  then show ?thesis unfolding listings_of_def by (rule map_filter_all_Some)
qed

lemma listings_of_urls:
  "map Listing.url (listings_of doc nm) = map anchor_url (take 25 (listing_anchors doc))"
proof -
  have "map (map_option Listing.url) (map Some (listings_of doc nm))
        = map (map_option Listing.url) (map (listing_of nm) (take 25 (listing_anchors doc)))"
    by (simp only: listings_of_records)
  moreover have "\<forall>el\<in>set (take 25 (listing_anchors doc)).
                   map_option Listing.url (listing_of nm el) = Some (anchor_url el)"
  proof
    fix el assume "el \<in> set (take 25 (listing_anchors doc))"
    then have "el \<in> set (listing_anchors doc)" by (rule in_set_takeD)
    then have "attr_contains ''href'' ''/bostad/'' el" by (simp add: listing_anchors_def)
    from listing_of_anchor [OF this, of nm]
    show "map_option Listing.url (listing_of nm el) = Some (anchor_url el)" by auto
  qed
  ultimately have "map Some (map Listing.url (listings_of doc nm))
                   = map Some (map anchor_url (take 25 (listing_anchors doc)))"
    by (simp add: comp_def)
  moreover have "inj (Some :: string \<Rightarrow> string option)" by (simp add: inj_def)
  ultimately show ?thesis by (simp only: inj_map_eq_map)
qed

lemma listings_of_length: "length (listings_of doc nm) = min 25 (length (listing_anchors doc))"
proof -
  have "length (map Some (listings_of doc nm))
        = length (map (listing_of nm) (take 25 (listing_anchors doc)))"
    by (simp only: listings_of_records)
  then show ?thesis by (simp add: min.commute)
qed

lemma thirty_listing_anchors: "listing_anchors thirty_anchors = map anchor thirty_names"
  by (simp add: thirty_anchors_def thirty_names_def listing_anchors_def select_def select_all_def
      anchor_def is_tag_def attr_contains_def attr_def)

lemma anchor_url_anchor: "anchor_url (anchor s) = ''https://www.hemnet.se/bostad/'' @ s"
  by (simp add: anchor_url_def anchor_def attr_def startsWith_def)

lemma fetchPage_example:
  "rendered \<noteq> [] \<Longrightarrow> \<not> str_includes rendered ''Verify you are human'' \<Longrightarrow>
   fetchPage (example_env direct rendered doc) u = ([render_request u], Inr rendered)"
  by (simp add: fetchPage_def example_render)

text \<open>
  C4. When the search URL has been built and the page fetched, and the parsed page has at
  least 25 anchors whose \<open>href\<close> contains "/bostad/", \<open>searchHemnet\<close> returns exactly 25
  records: the records of the first 25 such anchors, in document order, each with the URL
  of its anchor.
\<close>

theorem searchHemnet_cap:
  assumes "searchHemnet_url e loc options = (reqs, Inr (searchUrl, nm))"
    and "fetchPage e searchUrl = (reqs', Inr page)"
    and "25 \<le> length (listing_anchors (cheerio_load e page))"
  shows "\<exists>ls. searchHemnet e loc options = (reqs @ reqs', Inr (ls, nm)) \<and>
              length ls = 25 \<and>
              map Some ls = map (listing_of nm) (take 25 (listing_anchors (cheerio_load e page))) \<and>
              map Listing.url ls = map anchor_url (take 25 (listing_anchors (cheerio_load e page)))"
proof -
  have "searchHemnet e loc options
        = (reqs @ reqs', Inr (listings_of (cheerio_load e page) nm, nm))"
    using assms(1,2) by (simp add: searchHemnet_def)
  moreover have "length (listings_of (cheerio_load e page) nm) = 25"
    using assms(3) by (simp add: listings_of_length)
  ultimately show ?thesis
    using listings_of_records listings_of_urls by blast
qed

theorem searchHemnet_cap_witness:
  "length (listing_anchors (cheerio_load (example_env [] ''<html></html>'' thirty_anchors) ''<html></html>'')) = 30
   \<and> (\<exists>ls. searchHemnet (example_env [] ''<html></html>'' thirty_anchors) None no_options
            = ([render_request ''https://www.hemnet.se/bostader?''], Inr (ls, ''Sverige''))
          \<and> length ls = 25
          \<and> map Listing.url ls = map (\<lambda>s. ''https://www.hemnet.se/bostad/'' @ s) (take 25 thirty_names))"
proof -
  let ?e = "example_env [] ''<html></html>'' thirty_anchors"
  have h1: "searchHemnet_url ?e None no_options
            = ([], Inr (''https://www.hemnet.se/bostader?'', ''Sverige''))"
    by (simp add: searchHemnet_url_def truthy_str_def buildSearchUrl_def toString_def
        searchParams_segments no_options_def seg_def type_params_def truthy_num_def truthy_bool_def)
  have h2: "fetchPage ?e ''https://www.hemnet.se/bostader?''
            = ([render_request ''https://www.hemnet.se/bostader?''], Inr ''<html></html>'')"
    by (rule fetchPage_example) simp_all
  have l: "length (listing_anchors (cheerio_load ?e ''<html></html>'')) = 30"
    by (simp add: example_env_sel thirty_listing_anchors thirty_names_def)
  then have h3: "25 \<le> length (listing_anchors (cheerio_load ?e ''<html></html>''))" by simp
  have u: "map anchor_url (take 25 (listing_anchors (cheerio_load ?e ''<html></html>'')))
           = map (\<lambda>s. ''https://www.hemnet.se/bostad/'' @ s) (take 25 thirty_names)"
    by (simp add: example_env_sel thirty_listing_anchors take_map anchor_url_anchor comp_def)
  from searchHemnet_cap [OF h1 h2 h3] l u show ?thesis by auto
qed

section \<open>Listing details: field lookup\<close>

lemma dt_each_absent:
  "\<forall>p\<in>set els. \<not> str_includes (sel_text [fst p]) t \<Longrightarrow> dt_each els t = []"
  by (induction els t rule: dt_each.induct) auto

lemma getDefinitionByTerm_absent:
  assumes "\<forall>el\<in>set (select doc ''dt''). \<not> str_includes (sel_text [el]) t"
  shows "getDefinitionByTerm doc t = []"
proof -
  have "\<forall>p\<in>set (filter (\<lambda>(el, following). is_tag ''dt'' el) (elems doc)).
          \<not> str_includes (sel_text [fst p]) t"
  proof
    fix p assume "p \<in> set (filter (\<lambda>(el, following). is_tag ''dt'' el) (elems doc))"
    then have "fst p \<in> set (select doc ''dt'')"
      by (auto simp: select_def select_all_def)
    with assms show "\<not> str_includes (sel_text [fst p]) t" by blast
  qed
  then show ?thesis unfolding getDefinitionByTerm_def by (rule dt_each_absent)
qed

lemma imageCount_each_absent:
  "\<forall>el\<in>set els. match_here bilder_regex (trim (sel_text [el])) = None \<Longrightarrow> imageCount_each els = 0"
  by (induction els) (auto simp: Let_def)

lemma details_fields_absent:
  "\<forall>(t, field)\<in>set detail_terms.
      (\<forall>el\<in>set (select doc ''dt''). \<not> str_includes (sel_text [el]) t)
      \<longrightarrow> field (details_of doc page) = []"
  by (simp add: detail_terms_def details_of_def getDefinitionByTerm_absent)

lemma details_defaults:
  "((\<forall>el\<in>set (select_all doc). match_here bilder_regex (trim (sel_text [el])) = None)
      \<longrightarrow> imageCount (details_of doc page) = 0)
   \<and> ((\<forall>el\<in>set (select doc ''button''). \<not> str_includes (sel_text [el]) ''Planritning'')
      \<longrightarrow> \<not> hasFloorPlan (details_of doc page))
   \<and> (\<not> str_includes (toLowerCase page) ''budgivning med bankid''
      \<longrightarrow> \<not> hasBankIdBidding (details_of doc page))
   \<and> ((\<forall>el\<in>set (select doc ''a''). \<not> attr_contains ''href'' ''maps.google.com'' el)
      \<longrightarrow> coordinates (details_of doc page) = None)"
  by (auto simp: details_of_def imageCount_each_absent coordinates_of_def first_def filter_empty_conv
      split: list.splits)

lemma details_total:
  "str_includes listing_url ''hemnet.se/bostad/'' \<and> fetchPage e listing_url = (reqs, Inr page) \<and>
   \<not> removed page
   \<longrightarrow> getListingDetails e listing_url = (reqs, Inr (details_of (cheerio_load e page) page))"
  by (simp add: getListingDetails_def removed_def Let_def)

text \<open>The only exceptions of \<open>getListingDetails\<close> are the invalid URL, those of
  \<open>fetchPage\<close>, and the removed listing.\<close>

lemma getListingDetails_errors:
  "getListingDetails e listing_url = (reqs, Inl err) \<Longrightarrow>
   err = InvalidListingUrl \<or> err = ListingRemoved \<or> fetchPage e listing_url = (reqs, Inl err)"
  by (auto simp: getListingDetails_def Let_def split: if_splits prod.splits sum.splits)

text \<open>On the empty document and the empty markup every field has its empty value.\<close>

lemma details_of_empty:
  "details_of [] [] =
     \<lparr>title = [], pricePerSqm = [], propertyType = [], tenureType = [], rooms = [], area = [],
      balcony = [], patio = [], floor = [], buildYear = [], energyClass = [], monthlyFee = [],
      runningCosts = [], description = [], imageCount = 0, visitCount = [], hasFloorPlan = False,
      hasBankIdBidding = False, coordinates = None\<rparr>"
  by (simp add: details_of_def getDefinitionByTerm_def select_def select_all_def first_def
      sel_text_def trim_def coordinates_of_def toLowerCase_def)

text \<open>
  C2. For every parsed document and every term that \<open>getListingDetails\<close> looks up: if no
  \<^verbatim>\<open>dt\<close> element of the document has a text that contains the term, the field that the
  term fills is the empty string. The image count is zero, the two flags are false and
  the coordinates are null when the document, or the markup, has none of their markers.
  No step of the extraction throws: once the URL is accepted and the page is fetched and
  is not the page of a removed listing, \<open>getListingDetails\<close> returns the record built
  from the page, whatever the markup and the parsed document are.
\<close>

theorem getListingDetails_absent_fields:
  "(\<forall>(t, field)\<in>set detail_terms.
      (\<forall>el\<in>set (select doc ''dt''). \<not> str_includes (sel_text [el]) t)
      \<longrightarrow> field (details_of doc page) = [])
   \<and> ((\<forall>el\<in>set (select_all doc). match_here bilder_regex (trim (sel_text [el])) = None)
      \<longrightarrow> imageCount (details_of doc page) = 0)
   \<and> ((\<forall>el\<in>set (select doc ''button''). \<not> str_includes (sel_text [el]) ''Planritning'')
      \<longrightarrow> \<not> hasFloorPlan (details_of doc page))
   \<and> (\<not> str_includes (toLowerCase page) ''budgivning med bankid''
      \<longrightarrow> \<not> hasBankIdBidding (details_of doc page))
   \<and> ((\<forall>el\<in>set (select doc ''a''). \<not> attr_contains ''href'' ''maps.google.com'' el)
      \<longrightarrow> coordinates (details_of doc page) = None)
   \<and> (str_includes listing_url ''hemnet.se/bostad/'' \<and> fetchPage e listing_url = (reqs, Inr page) \<and>
       \<not> removed page
      \<longrightarrow> getListingDetails e listing_url = (reqs, Inr (details_of (cheerio_load e page) page)))"
  using details_fields_absent [of doc page] details_defaults [of doc page]
    details_total [of listing_url e reqs page]
  by blast

lemma rooms_page_select:
  "select rooms_page ''dt'' = [Element ''dt'' [] [Text ''Antal rum'']]"
  "select rooms_page ''button'' = []"
  "select rooms_page ''a'' = []"
  "select_all rooms_page = [Element ''dl'' []
        [Element ''dt'' [] [Text ''Antal rum''], Text '' '', Element ''dd'' [] [Text '' 3 rum '']],
      Element ''dt'' [] [Text ''Antal rum''], Element ''dd'' [] [Text '' 3 rum '']]"
  by (simp_all add: rooms_page_def select_def select_all_def is_tag_def)

lemma rooms_page_rooms: "ListingDetails.rooms (details_of rooms_page page) = ''3 rum''"
  by (simp add: details_of_def getDefinitionByTerm_def rooms_page_def is_tag_def sel_text_def
      next_tag_def trim_def is_space_def)

theorem getListingDetails_absent_fields_witness:
  "select rooms_page ''dt'' = [Element ''dt'' [] [Text ''Antal rum'']]
   \<and> \<not> str_includes (sel_text [Element ''dt'' [] [Text ''Antal rum'']]) ''Boarea''
   \<and> getListingDetails (example_env [] ''<dl><dt>Antal rum</dt> <dd> 3 rum </dd></dl>'' rooms_page)
       ''https://www.hemnet.se/bostad/1''
     = ([render_request ''https://www.hemnet.se/bostad/1''],
        Inr (details_of rooms_page ''<dl><dt>Antal rum</dt> <dd> 3 rum </dd></dl>''))
   \<and> ListingDetails.area (details_of rooms_page ''<dl><dt>Antal rum</dt> <dd> 3 rum </dd></dl>'') = []
   \<and> ListingDetails.rooms (details_of rooms_page ''<dl><dt>Antal rum</dt> <dd> 3 rum </dd></dl>'') = ''3 rum''
   \<and> imageCount (details_of rooms_page ''<dl><dt>Antal rum</dt> <dd> 3 rum </dd></dl>'') = 0
   \<and> \<not> hasFloorPlan (details_of rooms_page ''<dl><dt>Antal rum</dt> <dd> 3 rum </dd></dl>'')
   \<and> \<not> hasBankIdBidding (details_of rooms_page ''<dl><dt>Antal rum</dt> <dd> 3 rum </dd></dl>'')
   \<and> coordinates (details_of rooms_page ''<dl><dt>Antal rum</dt> <dd> 3 rum </dd></dl>'') = None"
proof -
  let ?p = "''<dl><dt>Antal rum</dt> <dd> 3 rum </dd></dl>''"
  let ?e = "example_env [] ?p rooms_page"
  let ?u = "''https://www.hemnet.se/bostad/1''"
  have a: "\<forall>el\<in>set (select rooms_page ''dt''). \<not> str_includes (sel_text [el]) ''Boarea''"
    by (simp add: rooms_page_select sel_text_def)
  have m: "(''Boarea'', ListingDetails.area) \<in> set detail_terms"
    by (simp add: detail_terms_def)
  have b: "\<forall>el\<in>set (select_all rooms_page). match_here bilder_regex (trim (sel_text [el])) = None"
    by (simp add: rooms_page_select sel_text_def trim_def is_space_def bilder_regex_def
        match_here.simps is_digit_def)
  have c: "\<forall>el\<in>set (select rooms_page ''button''). \<not> str_includes (sel_text [el]) ''Planritning''"
    "\<forall>el\<in>set (select rooms_page ''a''). \<not> attr_contains ''href'' ''maps.google.com'' el"
    by (simp_all add: rooms_page_select)
  have d: "\<not> str_includes (toLowerCase ?p) ''budgivning med bankid''"
    by (simp add: toLowerCase_def lower_char_def char_of_def bit_0)
  have u: "str_includes ?u ''hemnet.se/bostad/''" by simp
  have f: "fetchPage ?e ?u = ([render_request ?u], Inr ?p)"
    by (rule fetchPage_example) simp_all
  have r: "\<not> removed ?p" by (simp add: removed_def a_uml_def)
  have l: "cheerio_load ?e ?p = rooms_page" by (simp add: example_env_sel)
  from getListingDetails_absent_fields [of rooms_page ?p ?u ?e "[render_request ?u]"]
    a m b c d u f r l rooms_page_rooms [of ?p] rooms_page_select(1)
  have "getListingDetails ?e ?u = ([render_request ?u], Inr (details_of rooms_page ?p))
        \<and> ListingDetails.area (details_of rooms_page ?p) = []
        \<and> ListingDetails.rooms (details_of rooms_page ?p) = ''3 rum''
        \<and> imageCount (details_of rooms_page ?p) = 0
        \<and> \<not> hasFloorPlan (details_of rooms_page ?p)
        \<and> \<not> hasBankIdBidding (details_of rooms_page ?p)
        \<and> coordinates (details_of rooms_page ?p) = None"
    by (auto simp only:)
  moreover have "\<not> str_includes (sel_text [Element ''dt'' [] [Text ''Antal rum'']]) ''Boarea''"
    by (simp add: sel_text_def)
  ultimately show ?thesis using rooms_page_select(1) by blast
qed

section \<open>The monthly fee of a search result\<close>

lemma search_Some:
  "search re s = Some (i, n, ms) \<Longrightarrow> i \<le> length s \<and> match_here re (drop i s) = Some (n, ms)"
proof (induction s arbitrary: i)
  case Nil
  then show ?case by (auto simp: search.simps split: option.splits)
next
  case (Cons x xs)
  show ?case
  proof (cases "match_here re (x # xs)")
    case (Some m)
    with Cons.prems show ?thesis by (auto simp: search.simps)
  next
    case None
    with Cons.prems obtain j where j: "search re xs = Some (j, n, ms)" and i: "i = Suc j"
      by (auto simp: search.simps split: option.splits)
    from Cons.IH [OF j] i show ?thesis by simp
  qed
qed

lemma shift_Some: "shift k r = Some y \<Longrightarrow> \<exists>z. r = Some z"
  by (cases r) auto

lemma star_suffix:
  "match_here (Star c # r) s = Some y \<Longrightarrow> \<exists>k z. k \<le> length s \<and> match_here r (drop k s) = Some z"
proof (induction s arbitrary: y)
  case Nil
  then have "match_here r (drop 0 []) = Some y" by (simp add: match_here.simps)
  then show ?case by blast
next
  case (Cons x xs)
  show ?case
  proof (cases "c x \<and> shift 1 (match_here (Star c # r) xs) \<noteq> None")
    case True
    then obtain z where "match_here (Star c # r) xs = Some z"
      using shift_Some by fastforce
    from Cons.IH [OF this] obtain k z' where "k \<le> length xs" "match_here r (drop k xs) = Some z'"
      by blast
    then have "Suc k \<le> length (x # xs)" "match_here r (drop (Suc k) (x # xs)) = Some z'" by simp_all
    then show ?thesis by blast
  next
    case False
    with Cons.prems have "match_here r (drop 0 (x # xs)) = Some y"
      by (auto simp: match_here.simps split: if_splits option.splits)
    then show ?thesis by (metis le0)
  qed
qed

lemma lit_prefix: "match_here (Lit l # r) s = Some y \<Longrightarrow> prefix l s"
  by (auto simp: match_here.simps split: if_splits)

lemma drop_includes: "prefix l (drop k s) \<Longrightarrow> str_includes s l"
proof -
  assume "prefix l (drop k s)"
  then obtain post where "drop k s = l @ post" by (auto simp: prefix_def)
  then have "s = take k s @ l @ post" by (metis append_take_drop_id)
  then show ?thesis unfolding str_includes_iff by blast
qed

lemma one_Some:
  "match_here (One c # r) s = Some y \<Longrightarrow> \<exists>x xs z. s = x # xs \<and> c x \<and> match_here r xs = Some z"
proof (cases s)
  case Nil
  assume "match_here (One c # r) s = Some y"
  with Nil show ?thesis by (simp add: match_here.simps(4))
next
  case (Cons x xs)
  assume "match_here (One c # r) s = Some y"
  with Cons have "c x" and "shift 1 (match_here r xs) = Some y"
    by (simp_all add: match_here.simps(5) split: if_splits)
  with Cons shift_Some show ?thesis by blast
qed

lemma fee_match_parts:
  assumes "search fee_regex s = Some m"
  shows "str_includes s (''kr/m'' @ [a_ring] @ ''n'') \<and> (\<exists>c\<in>set s. is_digit c)"
proof -
  obtain i n ms where m: "m = (i, n, ms)" by (cases m)
  from search_Some assms m have mh: "match_here fee_regex (drop i s) = Some (n, ms)" by blast
  from one_Some [OF mh [unfolded fee_regex_def]] obtain d t z where dt: "drop i s = d # t"
    and dig: "is_digit d"
    and r1: "match_here [Star (\<lambda>c. is_digit c \<or> is_space c), Star is_space,
                         Lit (''kr/m'' @ [a_ring] @ ''n'')] t = Some z"
    by blast
  from star_suffix [OF r1] obtain k y where
    r2: "match_here [Star is_space, Lit (''kr/m'' @ [a_ring] @ ''n'')] (drop k t) = Some y" by blast
  from star_suffix [OF r2] obtain k' y' where
    r3: "match_here [Lit (''kr/m'' @ [a_ring] @ ''n'')] (drop k' (drop k t)) = Some y'" by blast
  from r3 have p: "prefix (''kr/m'' @ [a_ring] @ ''n'') (drop k' (drop k t))" by (rule lit_prefix)
  have "t = drop (Suc i) s" using dt by (metis drop_Suc tl_drop list.sel(3))
  then have "drop k' (drop k t) = drop (k' + (k + Suc i)) s" by (simp only: drop_drop)
  with p have "str_includes s (''kr/m'' @ [a_ring] @ ''n'')" using drop_includes by metis
  moreover have "d \<in> set s" using dt by (metis in_set_dropD list.set_intros(1))
  ultimately show ?thesis using dig by blast
qed

lemma fee_each_none:
  "\<forall>el\<in>set els. \<not> (str_includes (own_text el) (''kr/m'' @ [a_ring] @ ''n'') \<and> (\<exists>c\<in>set (own_text el). is_digit c))
   \<Longrightarrow> fee_each els = None"
proof (induction els)
  case Nil
  then show ?case by simp
next
  case (Cons el els)
  then have "search fee_regex (own_text el) = None"
    using fee_match_parts [of "own_text el"] by (cases "search fee_regex (own_text el)") auto
  with Cons show ?case by (simp add: Let_def)
qed


text \<open>What holds of the fee: when no element under the anchor has both a digit and the
  marker in its own text, no fee is extracted. Digits and a marker that lie in different
  elements are never put together.\<close>

lemma monthlyFee_not_across_elements:
  assumes "\<forall>el\<in>set (find_all a).
             \<not> (str_includes (own_text el) (''kr/m'' @ [a_ring] @ ''n'') \<and>
                (\<exists>c\<in>set (own_text el). is_digit c))"
    and "listing_of nm a = Some l"
  shows "Listing.monthlyFee l = []"
proof -
  from assms(1) have "fee_each (find_all a) = None" by (rule fee_each_none)
  with assms(2) show ?thesis
    by (auto simp: listing_of_def Let_def split: option.splits if_splits)
qed

lemma monthlyFee_two_elements:
  "map_option Listing.monthlyFee (listing_of ''Sverige'' fee_in_two_elements) = Some []"
  by (simp add: fee_in_two_elements_def listing_of_def attr_def Let_def find_all_def select_all_def
      own_text_def fee_regex_def match_here.simps search.simps is_digit_def is_space_def a_ring_def)

text \<open>Digits and marker in two text nodes of one element, with an element between
  them, are put together as well.\<close>

lemma monthlyFee_joins_separated_text_nodes:
  "map_option Listing.monthlyFee
     (listing_of ''Sverige''
        (Element ''a'' [(''href'', ''/bostad/1'')]
           [Element ''div'' []
              [Text ''1 200'', Element ''b'' [] [Text ''x''], Text ('' kr/m'' @ [a_ring] @ ''n'')]]))
   = Some (''1 200 kr/m'' @ [a_ring] @ ''n'')"
  by (simp add: listing_of_def attr_def Let_def find_all_def select_all_def own_text_def
      fee_regex_def match_here.simps search.simps is_digit_def is_space_def a_ring_def)

text \<open>
  C8. The fee pattern is not applied to each text node: it is applied to the text nodes
  of an element put together. In the fragment below the digits "1" and "200" lie in two
  text nodes of one element, separated by a \<^verbatim>\<open>br\<close> element; the first text node alone
  has no match and the second alone matches "200 kr/m\<open>\<aa>\<close>n", yet the extracted fee is
  "1200 kr/m\<open>\<aa>\<close>n", the two digit runs merged into one number.
\<close>

theorem monthlyFee_merges_text_nodes:
  "fee_in_two_text_nodes =
     Element ''a'' [(''href'', ''/bostad/1'')]
       [Element ''div'' [] [Text ''1'', Element ''br'' [] [], Text (''200 kr/m'' @ [a_ring] @ ''n'')]]
   \<and> search fee_regex ''1'' = None
   \<and> map_option (group0 (''200 kr/m'' @ [a_ring] @ ''n''))
       (search fee_regex (''200 kr/m'' @ [a_ring] @ ''n'')) = Some (''200 kr/m'' @ [a_ring] @ ''n'')
   \<and> map_option Listing.monthlyFee (listing_of ''Sverige'' fee_in_two_text_nodes)
     = Some (''1200 kr/m'' @ [a_ring] @ ''n'')"
proof -
  have n1: "search fee_regex ''1'' = None"
    by (simp add: fee_regex_def match_here.simps search.simps is_digit_def is_space_def a_ring_def)
  have n2: "map_option (group0 (''200 kr/m'' @ [a_ring] @ ''n''))
              (search fee_regex (''200 kr/m'' @ [a_ring] @ ''n'')) = Some (''200 kr/m'' @ [a_ring] @ ''n'')"
    by (simp add: fee_regex_def match_here.simps search.simps is_digit_def is_space_def a_ring_def)
  have f: "map_option Listing.monthlyFee (listing_of ''Sverige'' fee_in_two_text_nodes)
           = Some (''1200 kr/m'' @ [a_ring] @ ''n'')"
    by (simp add: fee_in_two_text_nodes_def listing_of_def attr_def Let_def find_all_def
        select_all_def own_text_def fee_regex_def match_here.simps search.simps is_digit_def
        is_space_def a_ring_def)
  from n1 n2 f show ?thesis by (simp add: fee_in_two_text_nodes_def)
qed

theorem monthlyFee_merges_text_nodes_witness:
  "map_option Listing.monthlyFee (listing_of ''Sverige'' fee_in_two_text_nodes)
   = Some (''1200 kr/m'' @ [a_ring] @ ''n'')
   \<and> ''1200 kr/m'' @ [a_ring] @ ''n'' \<noteq> ''200 kr/m'' @ [a_ring] @ ''n''"
  using monthlyFee_merges_text_nodes by simp

end
